theory Spec2Isabelle
  imports Main
begin

section \<open>Python values and exceptions\<close>

text \<open>
  An exception is its class and its \<^verbatim>\<open>args\<close> tuple. A function of the source that may
  raise returns \<open>py_error + 'a\<close>, with \<open>Inl\<close> the exception that leaves the function.
\<close>

datatype exc_class =
    KeyError | IndexError | AttributeError | TypeError | ValueError | OtherError string

datatype py_error = Exc exc_class "string list"

text \<open>
  The values of the notebook configuration \<^verbatim>\<open>nb_config.as_dict()\<close>: booleans, integers,
  strings, sequences of strings and \<^verbatim>\<open>None\<close>.
\<close>

datatype cfg_value = VBool bool | VInt int | VStr string | VList "string list" | VNone

text \<open>Python's truth value of a configuration value, as \<^verbatim>\<open>not v\<close> and \<^verbatim>\<open>if v\<close> test it.\<close>

fun truthy :: "cfg_value \<Rightarrow> bool" where
  "truthy (VBool b) = b"
| "truthy (VInt i) = (i \<noteq> 0)"
| "truthy (VStr s) = (s \<noteq> [])"
| "truthy (VList xs) = (xs \<noteq> [])"
| "truthy VNone = False"

text \<open>
  \<^verbatim>\<open>for x in v\<close>: a sequence yields its elements, a string its characters, and anything
  else raises \<^verbatim>\<open>TypeError\<close>.
\<close>

fun py_iter :: "cfg_value \<Rightarrow> py_error + string list" where
  "py_iter (VList xs) = Inr xs"
| "py_iter (VStr s) = Inr (map (\<lambda>c. [c]) s)"
| "py_iter (VBool b) = Inl (Exc TypeError [''bool object is not iterable''])"
| "py_iter (VInt i) = Inl (Exc TypeError [''int object is not iterable''])"
| "py_iter VNone = Inl (Exc TypeError [''NoneType object is not iterable''])"

section \<open>The notebook\<close>

text \<open>
  An output is a \<^verbatim>\<open>NotebookNode\<close>: a dictionary read by attribute. \<^verbatim>\<open>output_type\<close> is
  on every output; a key that an output may lack is an \<open>option\<close>, \<open>None\<close> when the key
  is absent. The \<^verbatim>\<open>data\<close> dictionary is an association list in the dictionary's
  iteration order.
\<close>

record nb_output =
  output_type :: string
  name :: "string option"
  text' :: "string option"
  data :: "(string \<times> string) list option"
  traceback :: "string list option"

record cell =
  cell_type :: string
  outputs :: "nb_output list option"

record notebook =
  cells :: "cell list"

text \<open>
  The syntax-tree token of one code cell: \<^verbatim>\<open>token.meta["index"]\<close>,
  \<^verbatim>\<open>token.meta["execution_count"]\<close>, \<^verbatim>\<open>token.meta["metadata"].get("tags")\<close>
  (\<open>None\<close> when the metadata has no tags), \<^verbatim>\<open>token.meta.get("lexer")\<close>,
  \<^verbatim>\<open>token.content\<close> and \<^verbatim>\<open>token.map\<close>.
\<close>

record token =
  index :: nat
  execution_count :: "int option"
  tags :: "string list option"
  lexer :: "string option"
  content :: string
  tok_map :: "(int \<times> int) option"

section \<open>The document tree and the diagnostics\<close>

text \<open>A call of \<^verbatim>\<open>create_warning\<close>: message, line, type and subtype of the warning.\<close>

record diagnostic =
  message :: string
  line :: int
  wtype :: string
  subtype :: string

text \<open>
  The attributes that tell the containers of the source apart:
  \<^verbatim>\<open>nb_element="cell_code"\<close> with the cell's index, execution count, metadata tags and
  classes; \<^verbatim>\<open>nb_element="cell_code_source"\<close>; \<^verbatim>\<open>nb_element="cell_code_output"\<close>; and
  \<^verbatim>\<open>mime_type=...\<close>.
\<close>

datatype container_kind =
    CellCode nat "int option" "string list option" "string list"
  | CellCodeSource
  | CellCodeOutput
  | MimeContainer string

text \<open>
  A node of the tree is a node that a rendering capability returned (of the host's node
  type \<open>'n\<close>), a container with its children in order, or the system message of a
  warning. The \<^verbatim>\<open>line\<close> and \<^verbatim>\<open>source\<close> attributes that
  \<^verbatim>\<open>add_line_and_source_path\<close> and \<^verbatim>\<open>add_line_and_source_path_r\<close> set on nodes after
  they are made are not part of the model's nodes.
\<close>

datatype 'n node =
    Rendered 'n
  | Container container_kind "'n node list"
  | SystemMessage diagnostic

text \<open>
  The renderer's state while it walks a cell: the children of \<^verbatim>\<open>self.current_node\<close> in
  order, and the warnings reported so far.
\<close>

record 'n rstate =
  children :: "'n node list"
  warnings :: "diagnostic list"

section \<open>The renderer's collaborators\<close>

text \<open>
  The element renderer \<^verbatim>\<open>self.nb_renderer\<close> (an \<^verbatim>\<open>NbElementRenderer\<close>), the functions of
  the markdown renderer that the source calls (\<^verbatim>\<open>token_line\<close>,
  \<^verbatim>\<open>create_highlighted_code_block\<close>), \<^verbatim>\<open>coalesce_streams\<close> and the constant
  \<^verbatim>\<open>DEFAULT_LOG_TYPE\<close> are defined outside this file of the source: they are
  parameters of the model. \<^verbatim>\<open>self.config\<close> holds the configuration dictionary and the
  notebook; \<^verbatim>\<open>self.document["source"]\<close> is the document's path. \<open>halt_level\<close> is the
  halt level of the document's reporter (the docutils setting \<^verbatim>\<open>halt_level\<close>, 4 unless the
  user sets it): a system message of that level or above makes the reporter raise
  \<^verbatim>\<open>docutils.utils.SystemMessage\<close>.
\<close>

record 'n renderer =
  render_stdout :: "nb_output \<Rightarrow> nat \<Rightarrow> int \<Rightarrow> 'n list"
  render_stderr :: "nb_output \<Rightarrow> nat \<Rightarrow> int \<Rightarrow> 'n list"
  render_error :: "nb_output \<Rightarrow> nat \<Rightarrow> int \<Rightarrow> 'n list"
  render_mime_type :: "string \<Rightarrow> string \<Rightarrow> nat \<Rightarrow> int \<Rightarrow> 'n list"
  coalesce_streams :: "nb_output list \<Rightarrow> nb_output list"
  token_line :: "token \<Rightarrow> py_error + int"
  create_highlighted_code_block ::
    "string \<Rightarrow> string option \<Rightarrow> cfg_value \<Rightarrow> string \<Rightarrow> int \<Rightarrow> 'n"
  DEFAULT_LOG_TYPE :: string
  halt_level :: nat
  nb_config :: "string \<Rightarrow> cfg_value option"
  config_notebook :: notebook
  self_document_source :: string

section \<open>DocutilsNbRenderer\<close>

text \<open>
  \<^verbatim>\<open>get_nb_config(key, cell_index)\<close> returns \<^verbatim>\<open>self.config["nb_config"][key]\<close>; a key that
  the dictionary lacks raises \<^verbatim>\<open>KeyError\<close>.
\<close>

definition get_nb_config :: "'n renderer \<Rightarrow> string \<Rightarrow> nat option \<Rightarrow> py_error + cfg_value" where
  "get_nb_config self key cell_index =
     (case nb_config self key of
        None \<Rightarrow> Inl (Exc KeyError [key])
      | Some v \<Rightarrow> Inr v)"

text \<open>
  \<^verbatim>\<open>create_warning(message, line=, append_to=self.current_node, wtype=, subtype=)\<close> of the
  markdown renderer gives the text \<^verbatim>\<open>f"{message} [{wtype}.{subtype}]"\<close> to
  \<^verbatim>\<open>self.reporter.warning\<close> and appends the system message that the reporter returns to
  \<^verbatim>\<open>append_to\<close>. A warning has level 2: a reporter whose halt level is 2 or less raises
  \<^verbatim>\<open>SystemMessage\<close> instead of returning, and nothing is appended.
\<close>

definition create_warning ::
  "'n renderer \<Rightarrow> string \<Rightarrow> int \<Rightarrow> string \<Rightarrow> string \<Rightarrow> 'n rstate \<Rightarrow> py_error + 'n rstate" where
  "create_warning self msg ln wt sub st =
     (let d = \<lparr>message = msg, line = ln, wtype = wt, subtype = sub\<rparr>
      in if halt_level self \<le> 2
         then Inl (Exc (OtherError ''SystemMessage'') [msg @ '' ['' @ wt @ ''.'' @ sub @ '']''])
         else Inr (st\<lparr>children := children st @ [SystemMessage d],
                      warnings := warnings st @ [d]\<rparr>))"

text \<open>
  \<^verbatim>\<open>self.current_node.extend(_nodes)\<close> for the nodes a capability returned.
\<close>

definition extend_current :: "'n list \<Rightarrow> 'n rstate \<Rightarrow> 'n rstate" where
  "extend_current ns st = st\<lparr>children := children st @ map Rendered ns\<rparr>"

text \<open>
  \<^verbatim>\<open>next(x for x in mime_priority if x in output["data"])\<close>: the candidates are tried in
  the order of the priority list; \<^verbatim>\<open>output["data"]\<close> is read once per candidate and
  raises \<^verbatim>\<open>KeyError\<close> when the output has no data. \<open>Inr None\<close> is \<^verbatim>\<open>StopIteration\<close>.
\<close>

fun resolve_mime :: "string list \<Rightarrow> (string \<times> string) list option \<Rightarrow> py_error + string option" where
  "resolve_mime [] d = Inr None"
| "resolve_mime (x # xs) None = Inl (Exc KeyError [''data''])"
| "resolve_mime (x # xs) (Some kv) =
     (if map_of kv x \<noteq> None then Inr (Some x) else resolve_mime xs (Some kv))"

text \<open>
  The body of the loop of \<^verbatim>\<open>render_nb_cell_code_outputs\<close> for one output.
\<close>

definition render_output ::
  "'n renderer \<Rightarrow> nat \<Rightarrow> int \<Rightarrow> cfg_value \<Rightarrow> nb_output \<Rightarrow> 'n rstate \<Rightarrow> py_error + 'n rstate" where
  "render_output self cell_index ln mime_priority out st =
     (if output_type out = ''stream'' then
        (case name out of
           None \<Rightarrow> Inl (Exc AttributeError [''name''])
         | Some n \<Rightarrow>
             if n = ''stdout'' then
               Inr (extend_current (render_stdout self out cell_index ln) st)
             else if n = ''stderr'' then
               Inr (extend_current (render_stderr self out cell_index ln) st)
             else Inr st)
      else if output_type out = ''error'' then
        Inr (extend_current (render_error self out cell_index ln) st)
      else if output_type out \<in> {''display_data'', ''execute_result''} then
        (case py_iter mime_priority of
           Inl e \<Rightarrow> Inl e
         | Inr prio \<Rightarrow>
            (case resolve_mime prio (data out) of
               Inl e \<Rightarrow> Inl e
             | Inr None \<Rightarrow>
                 create_warning self ''No output mime type found from render_priority''
                   ln (DEFAULT_LOG_TYPE self) ''mime_type'' st
             | Inr (Some mime_type) \<Rightarrow>
                (case data out of
                   None \<Rightarrow> Inl (Exc KeyError [''data''])
                 | Some kv \<Rightarrow>
                    (case map_of kv mime_type of
                       None \<Rightarrow> Inl (Exc KeyError [mime_type])
                     | Some payload \<Rightarrow>
                         Inr (st\<lparr>children := children st @
                                [Container (MimeContainer mime_type)
                                   (map Rendered
                                      (render_mime_type self mime_type payload cell_index ln))]\<rparr>)))))
      else
        create_warning self (''Unsupported output type: '' @ output_type out)
          ln (DEFAULT_LOG_TYPE self) ''output_type'' st)"

text \<open>The loop \<^verbatim>\<open>for output in outputs\<close>: an exception ends it.\<close>

fun render_outputs_loop ::
  "'n renderer \<Rightarrow> nat \<Rightarrow> int \<Rightarrow> cfg_value \<Rightarrow> nb_output list \<Rightarrow> 'n rstate \<Rightarrow> py_error + 'n rstate" where
  "render_outputs_loop self cell_index ln mime_priority [] st = Inr st"
| "render_outputs_loop self cell_index ln mime_priority (out # outs) st =
     (case render_output self cell_index ln mime_priority out st of
        Inl e \<Rightarrow> Inl e
      | Inr st' \<Rightarrow> render_outputs_loop self cell_index ln mime_priority outs st')"

text \<open>
  \<^verbatim>\<open>self.config["notebook"]["cells"][cell_index]\<close>: an index past the end raises
  \<^verbatim>\<open>IndexError\<close>.
\<close>

definition notebook_cell :: "'n renderer \<Rightarrow> nat \<Rightarrow> py_error + cell" where
  "notebook_cell self cell_index =
     (if cell_index < length (cells (config_notebook self))
      then Inr (cells (config_notebook self) ! cell_index)
      else Inl (Exc IndexError [''list index out of range'']))"

text \<open>\<^verbatim>\<open>cell.get("outputs", [])\<close>.\<close>

definition get_outputs :: "cell \<Rightarrow> nb_output list" where
  "get_outputs c = (case outputs c of None \<Rightarrow> [] | Some os \<Rightarrow> os)"

definition render_nb_cell_code_outputs :: "'n renderer \<Rightarrow> token \<Rightarrow> 'n rstate \<Rightarrow> py_error + 'n rstate" where
  "render_nb_cell_code_outputs self tok st =
     (let cell_index = index tok in
      case token_line self tok of
        Inl e \<Rightarrow> Inl e
      | Inr ln \<Rightarrow>
         (case notebook_cell self cell_index of
            Inl e \<Rightarrow> Inl e
          | Inr c \<Rightarrow>
             (case get_nb_config self ''merge_streams'' (Some cell_index) of
                Inl e \<Rightarrow> Inl e
              | Inr merge \<Rightarrow>
                 (let outs = (if truthy merge then coalesce_streams self (get_outputs c)
                              else get_outputs c) in
                  case get_nb_config self ''mime_priority'' (Some cell_index) of
                    Inl e \<Rightarrow> Inl e
                  | Inr mime_priority \<Rightarrow>
                      render_outputs_loop self cell_index ln mime_priority outs st))))"

text \<open>
  \<^verbatim>\<open>with self.current_node_context(node, append=True): body\<close>: the node is appended to
  the current node, the body runs with the node as the current node, and the current node
  is restored.
\<close>

definition current_node_context ::
  "container_kind \<Rightarrow> ('n rstate \<Rightarrow> py_error + 'n rstate) \<Rightarrow> 'n rstate \<Rightarrow> py_error + 'n rstate" where
  "current_node_context kind body st =
     (case body (st\<lparr>children := []\<rparr>) of
        Inl e \<Rightarrow> Inl e
      | Inr st' \<Rightarrow> Inr (st'\<lparr>children := children st @ [Container kind (children st')]\<rparr>))"

definition render_nb_cell_code_source :: "'n renderer \<Rightarrow> token \<Rightarrow> 'n rstate \<Rightarrow> py_error + 'n rstate" where
  "render_nb_cell_code_source self tok st =
     (let cell_index = index tok in
      case get_nb_config self ''number_source_lines'' (Some cell_index) of
        Inl e \<Rightarrow> Inl e
      | Inr number_lines \<Rightarrow>
         (case token_line self tok of
            Inl e \<Rightarrow> Inl e
          | Inr ln \<Rightarrow>
              Inr (extend_current
                     [create_highlighted_code_block self (content tok) (lexer tok)
                        number_lines (self_document_source self) ln] st)))"

text \<open>\<^verbatim>\<open>tag.replace(' ', '_')\<close>.\<close>

definition replace_space :: "string \<Rightarrow> string" where
  "replace_space tag = map (\<lambda>c. if c = CHR '' '' then CHR ''_'' else c) tag"

text \<open>\<^verbatim>\<open>token.meta["metadata"].get("tags", [])\<close>.\<close>

definition get_tags :: "token \<Rightarrow> string list" where
  "get_tags tok = (case tags tok of None \<Rightarrow> [] | Some ts \<Rightarrow> ts)"

text \<open>
  The source part of \<^verbatim>\<open>render_nb_cell_code\<close>: the configuration is read first, then the
  two spellings of the tag are looked for.
\<close>

definition render_cell_source_part :: "'n renderer \<Rightarrow> token \<Rightarrow> 'n rstate \<Rightarrow> py_error + 'n rstate" where
  "render_cell_source_part self tok st =
     (case get_nb_config self ''remove_code_source'' (Some (index tok)) of
        Inl e \<Rightarrow> Inl e
      | Inr remove_code_source \<Rightarrow>
          if (\<not> truthy remove_code_source)
             \<and> ''remove_input'' \<notin> set (get_tags tok)
             \<and> ''remove-input'' \<notin> set (get_tags tok)
          then current_node_context CellCodeSource (render_nb_cell_code_source self tok) st
          else Inr st)"

text \<open>
  The output part: \<^verbatim>\<open>has_outputs\<close> is the cell's list of outputs, false when empty; the
  configuration is read only when it is true.
\<close>

definition render_cell_output_part :: "'n renderer \<Rightarrow> token \<Rightarrow> 'n rstate \<Rightarrow> py_error + 'n rstate" where
  "render_cell_output_part self tok st =
     (case notebook_cell self (index tok) of
        Inl e \<Rightarrow> Inl e
      | Inr c \<Rightarrow>
          if get_outputs c = [] then Inr st
          else
            (case get_nb_config self ''remove_code_outputs'' (Some (index tok)) of
               Inl e \<Rightarrow> Inl e
             | Inr remove_code_outputs \<Rightarrow>
                 if (\<not> truthy remove_code_outputs)
                    \<and> ''remove_output'' \<notin> set (get_tags tok)
                    \<and> ''remove-output'' \<notin> set (get_tags tok)
                 then current_node_context CellCodeOutput (render_nb_cell_code_outputs self tok) st
                 else Inr st))"

definition render_nb_cell_code :: "'n renderer \<Rightarrow> token \<Rightarrow> 'n rstate \<Rightarrow> py_error + 'n rstate" where
  "render_nb_cell_code self tok st =
     (let cell_index = index tok;
          classes = ''cell'' # map (\<lambda>tag. ''tag_'' @ replace_space tag) (get_tags tok)
      in current_node_context
           (CellCode cell_index (execution_count tok) (tags tok) classes)
           (\<lambda>s. case render_cell_source_part self tok s of
                   Inl e \<Rightarrow> Inl e
                 | Inr s' \<Rightarrow> render_cell_output_part self tok s')
           st)"

section \<open>Parser.parse\<close>

text \<open>A call of the document's logger: the level and the message.\<close>

record log_entry =
  level :: string
  msg :: string

text \<open>
  The notebook configuration \<^verbatim>\<open>NbParserConfig\<close>, as far as \<^verbatim>\<open>parse\<close> reads it:
  \<^verbatim>\<open>read_as_md\<close>, \<^verbatim>\<open>render_plugin\<close> and \<^verbatim>\<open>as_dict()\<close>.
\<close>

record nb_parser_config =
  read_as_md :: bool
  render_plugin :: string
  as_dict :: "string \<Rightarrow> cfg_value option"

text \<open>\<^verbatim>\<open>NbReader(read, md_config)\<close>: the two fields \<^verbatim>\<open>parse\<close> gives it and reads back.\<close>

record 'm nb_reader =
  read :: "string \<Rightarrow> py_error + notebook"
  md_config :: 'm

text \<open>The document that \<^verbatim>\<open>parse\<close> is given: \<^verbatim>\<open>document["source"]\<close> and its settings.\<close>

record 's document =
  source :: string
  settings :: 's

text \<open>
  What a run of \<^verbatim>\<open>parse\<close> changes: the registered directives, the calls of the logger,
  \<^verbatim>\<open>document["nb_exec_data"]\<close>, the nodes added to the document, and the calls of
  \<^verbatim>\<open>write_file\<close> (path, content, overwrite).
\<close>

record ('x, 'n) pstate =
  directives :: "(string \<times> string) list"
  logged :: "log_entry list"
  nb_exec_data :: "'x option"
  doc_children :: "'n list"
  written :: "(string list \<times> string \<times> bool) list"

text \<open>
  The functions \<^verbatim>\<open>parse\<close> calls that are defined outside this file of the source, as
  parameters: each returns its value, or the exception it raises, together with what it
  logs, adds to the document or writes. The two calls of \<^verbatim>\<open>create_myst_config\<close> are
  \<open>create_myst_config\<close> (for \<^verbatim>\<open>MdParserConfig\<close>) and \<open>create_nb_config\<close> (for
  \<^verbatim>\<open>NbParserConfig\<close>, prefix \<^verbatim>\<open>nb_\<close>); \<open>MdParserConfig\<close> and \<open>NbParserConfig\<close> are
  the configurations that the constructors make without arguments. \<open>md_render\<close> is
  \<^verbatim>\<open>mdit_parser.renderer.render\<close> with the options \<^verbatim>\<open>parse\<close> sets; it reads the notebook
  and does not change it.
\<close>

record ('s, 'm, 'x, 't, 'n, 'r) parser_env =
  create_myst_config :: "'s \<Rightarrow> py_error + 'm"
  create_nb_config :: "'s \<Rightarrow> py_error + nb_parser_config"
  MdParserConfig :: 'm
  NbParserConfig :: nb_parser_config
  read_myst_markdown_notebook :: "'m \<Rightarrow> string \<Rightarrow> py_error + notebook"
  standard_nb_read :: "string \<Rightarrow> py_error + notebook"
  update_notebook ::
    "notebook \<Rightarrow> string \<Rightarrow> nb_parser_config \<Rightarrow> py_error + (notebook \<times> 'x option \<times> log_entry list)"
  load_renderer :: "string \<Rightarrow> py_error + 'r"
  notebook_to_tokens :: "notebook \<Rightarrow> 'm \<Rightarrow> py_error + ('t list \<times> log_entry list)"
  md_render ::
    "'t list \<Rightarrow> 'm \<Rightarrow> notebook \<Rightarrow> (string \<Rightarrow> cfg_value option) \<Rightarrow> 'r \<Rightarrow> string
       \<Rightarrow> py_error + ('n list \<times> log_entry list \<times> (string list \<times> string \<times> bool) list)"
  nbformat_writes :: "notebook \<Rightarrow> py_error + string"
  encode_utf8 :: "string \<Rightarrow> py_error + string"

text \<open>\<^verbatim>\<open>logger.error(message)\<close>.\<close>

definition logger_error :: "string \<Rightarrow> ('x, 'n) pstate \<Rightarrow> ('x, 'n) pstate" where
  "logger_error m st = st\<lparr>logged := logged st @ [\<lparr>level = ''error'', msg = m\<rparr>]\<rparr>"

text \<open>
  One of the two blocks
  \<^verbatim>\<open>try: config = create_myst_config(...)\<close>
  \<^verbatim>\<open>except (TypeError, ValueError) as error:\<close>
  \<^verbatim>\<open>    logger.error(f"... configuration invalid: {error.args[0]}"); config = Default()\<close>
  \<open>created\<close> is what \<^verbatim>\<open>create_myst_config\<close> returned or raised. Any other exception
  leaves \<^verbatim>\<open>parse\<close>, and so does the \<^verbatim>\<open>IndexError\<close> of \<^verbatim>\<open>error.args[0]\<close> on an exception
  without arguments.
\<close>

definition try_config ::
  "py_error + 'c \<Rightarrow> 'c \<Rightarrow> string \<Rightarrow> ('x, 'n) pstate \<Rightarrow> py_error + ('c \<times> ('x, 'n) pstate)" where
  "try_config created default_config prefix st =
     (case created of
        Inr c \<Rightarrow> Inr (c, st)
      | Inl (Exc cls args) \<Rightarrow>
          if cls = TypeError \<or> cls = ValueError then
            (case args of
               [] \<Rightarrow> Inl (Exc IndexError [''tuple index out of range''])
             | a # _ \<Rightarrow> Inr (default_config, logger_error (prefix @ a) st))
          else Inl (Exc cls args))"

text \<open>Lines 66 to 82: the markdown configuration, then the notebook configuration.\<close>

definition parse_config ::
  "('s, 'm, 'x, 't, 'n, 'r) parser_env \<Rightarrow> 's document \<Rightarrow> ('x, 'n) pstate
     \<Rightarrow> py_error + ('m \<times> nb_parser_config \<times> ('x, 'n) pstate)" where
  "parse_config env doc st =
     (case try_config (create_myst_config env (settings doc)) (MdParserConfig env)
             ''myst configuration invalid: '' st of
        Inl e \<Rightarrow> Inl e
      | Inr (md_conf, st1) \<Rightarrow>
         (case try_config (create_nb_config env (settings doc)) (NbParserConfig env)
                 ''myst-nb configuration invalid: '' st1 of
            Inl e \<Rightarrow> Inl e
          | Inr (nb_conf, st2) \<Rightarrow> Inr (md_conf, nb_conf, st2)))"

text \<open>
  Lines 84 to 106: the reader is chosen by \<^verbatim>\<open>read_as_md\<close>, the input is read, and
  \<^verbatim>\<open>update_notebook\<close> returns the notebook that is used from then on; execution data
  that is not \<^verbatim>\<open>None\<close> is stored on the document.
\<close>

definition parse_notebook ::
  "('s, 'm, 'x, 't, 'n, 'r) parser_env \<Rightarrow> string \<Rightarrow> string \<Rightarrow> 'm \<Rightarrow> nb_parser_config
     \<Rightarrow> ('x, 'n) pstate \<Rightarrow> py_error + (notebook \<times> 'm nb_reader \<times> ('x, 'n) pstate)" where
  "parse_notebook env inputstring document_source md_conf nb_conf st =
     (let reader =
            (if read_as_md nb_conf
             then \<lparr>read = read_myst_markdown_notebook env md_conf, md_config = md_conf\<rparr>
             else \<lparr>read = standard_nb_read env, md_config = md_conf\<rparr>)
      in case read reader inputstring of
           Inl e \<Rightarrow> Inl e
         | Inr nb \<Rightarrow>
            (case update_notebook env nb document_source nb_conf of
               Inl e \<Rightarrow> Inl e
             | Inr (nb', exec_data, lg) \<Rightarrow>
                 Inr (nb', reader,
                      st\<lparr>logged := logged st @ lg,
                         nb_exec_data :=
                           (case exec_data of None \<Rightarrow> nb_exec_data st | Some d \<Rightarrow> Some d)\<rparr>)))"

text \<open>
  Lines 108 to 126: the element renderer is loaded by its name, the notebook becomes
  tokens, and the tokens are rendered into the document.
\<close>

definition parse_render ::
  "('s, 'm, 'x, 't, 'n, 'r) parser_env \<Rightarrow> string \<Rightarrow> notebook \<Rightarrow> 'm nb_reader \<Rightarrow> nb_parser_config
     \<Rightarrow> ('x, 'n) pstate \<Rightarrow> py_error + ('r \<times> ('x, 'n) pstate)" where
  "parse_render env document_source nb reader nb_conf st =
     (case load_renderer env (render_plugin nb_conf) of
        Inl e \<Rightarrow> Inl e
      | Inr nb_renderer \<Rightarrow>
         (case notebook_to_tokens env nb (md_config reader) of
            Inl e \<Rightarrow> Inl e
          | Inr (mdit_tokens, lg) \<Rightarrow>
             (case md_render env mdit_tokens (md_config reader) nb (as_dict nb_conf)
                     nb_renderer document_source of
                Inl e \<Rightarrow> Inl e
              | Inr (nodes, lg', files) \<Rightarrow>
                  Inr (nb_renderer,
                       st\<lparr>logged := logged st @ lg @ lg',
                          doc_children := doc_children st @ nodes,
                          written := written st @ files\<rparr>))))"

text \<open>
  Lines 128 to 134: \<^verbatim>\<open>nbformat.writes(notebook).encode("utf-8")\<close> is written to
  \<^verbatim>\<open>["rendered.ipynb"]\<close> with \<^verbatim>\<open>overwrite=True\<close>.
\<close>

definition write_rendered ::
  "('s, 'm, 'x, 't, 'n, 'r) parser_env \<Rightarrow> notebook \<Rightarrow> ('x, 'n) pstate \<Rightarrow> py_error + ('x, 'n) pstate" where
  "write_rendered env nb st =
     (case nbformat_writes env nb of
        Inl e \<Rightarrow> Inl e
      | Inr txt \<Rightarrow>
         (case encode_utf8 env txt of
            Inl e \<Rightarrow> Inl e
          | Inr bytes \<Rightarrow>
              Inr (st\<lparr>written := written st @ [([''rendered.ipynb''], bytes, True)]\<rparr>)))"

text \<open>\<^verbatim>\<open>parse\<close> from line 84 on, for the two configurations that lines 66 to 82 chose.\<close>

definition parse_with_config ::
  "('s, 'm, 'x, 't, 'n, 'r) parser_env \<Rightarrow> string \<Rightarrow> string \<Rightarrow> 'm \<Rightarrow> nb_parser_config
     \<Rightarrow> ('x, 'n) pstate \<Rightarrow> py_error + ('x, 'n) pstate" where
  "parse_with_config env inputstring document_source md_conf nb_conf st =
     (case parse_notebook env inputstring document_source md_conf nb_conf st of
        Inl e \<Rightarrow> Inl e
      | Inr (nb, reader, st1) \<Rightarrow>
         (case parse_render env document_source nb reader nb_conf st1 of
            Inl e \<Rightarrow> Inl e
          | Inr (nb_renderer, st2) \<Rightarrow> write_rendered env nb st2))"

text \<open>\<^verbatim>\<open>register_directive(name, UnexpectedCellDirective)\<close> for the two cell directives.\<close>

definition register_directives :: "('x, 'n) pstate \<Rightarrow> ('x, 'n) pstate" where
  "register_directives st =
     st\<lparr>directives := directives st @
           [(''code-cell'', ''UnexpectedCellDirective''),
            (''raw-cell'', ''UnexpectedCellDirective'')]\<rparr>"

definition parse ::
  "('s, 'm, 'x, 't, 'n, 'r) parser_env \<Rightarrow> string \<Rightarrow> 's document \<Rightarrow> ('x, 'n) pstate
     \<Rightarrow> py_error + ('x, 'n) pstate" where
  "parse env inputstring doc st =
     (let document_source = source doc in
      case parse_config env doc (register_directives st) of
        Inl e \<Rightarrow> Inl e
      | Inr (md_conf, nb_conf, st1) \<Rightarrow>
          parse_with_config env inputstring document_source md_conf nb_conf st1)"

section \<open>Observations of a rendered tree\<close>

text \<open>The state of a node that has no children yet, with nothing reported.\<close>

definition empty_state :: "'n rstate" where
  "empty_state = \<lparr>children = [], warnings = []\<rparr>"

text \<open>
  What rendering one output alone appends to an empty node, and what it reports: the
  result of the loop body of the source on the empty state.
\<close>

definition emitted_nodes :: "'n renderer \<Rightarrow> nat \<Rightarrow> int \<Rightarrow> cfg_value \<Rightarrow> nb_output \<Rightarrow> 'n node list" where
  "emitted_nodes self i ln mp out =
     (case render_output self i ln mp out empty_state of Inl e \<Rightarrow> [] | Inr s \<Rightarrow> children s)"

definition emitted_warnings :: "'n renderer \<Rightarrow> nat \<Rightarrow> int \<Rightarrow> cfg_value \<Rightarrow> nb_output \<Rightarrow> diagnostic list" where
  "emitted_warnings self i ln mp out =
     (case render_output self i ln mp out empty_state of Inl e \<Rightarrow> [] | Inr s \<Rightarrow> warnings s)"

text \<open>The kinds of the containers among a list of nodes, in order.\<close>

fun child_kinds :: "'n node list \<Rightarrow> container_kind list" where
  "child_kinds [] = []"
| "child_kinds (Container k body # ns) = k # child_kinds ns"
| "child_kinds (n # ns) = child_kinds ns"

text \<open>The outputs that \<^verbatim>\<open>render_nb_cell_code_outputs\<close> walks: coalesced when the
  configuration's \<^verbatim>\<open>merge_streams\<close> is true.\<close>

definition walked_outputs :: "'n renderer \<Rightarrow> cfg_value \<Rightarrow> cell \<Rightarrow> nb_output list" where
  "walked_outputs self merge c =
     (if truthy merge then coalesce_streams self (get_outputs c) else get_outputs c)"

text \<open>The attributes of the container of a code cell.\<close>

definition cell_container_kind :: "token \<Rightarrow> container_kind" where
  "cell_container_kind tok =
     CellCode (index tok) (execution_count tok) (tags tok)
       (''cell'' # map (\<lambda>tag. ''tag_'' @ replace_space tag) (get_tags tok))"

text \<open>
  The two diagnostics of \<^verbatim>\<open>render_nb_cell_code_outputs\<close>, as \<^verbatim>\<open>create_warning\<close> is given
  them: no mime type of the priority list is in the output's data, and the output's type
  is not one the loop knows.
\<close>

definition no_mime_diagnostic :: "'n renderer \<Rightarrow> int \<Rightarrow> diagnostic" where
  "no_mime_diagnostic self ln =
     \<lparr>message = ''No output mime type found from render_priority'', line = ln,
      wtype = DEFAULT_LOG_TYPE self, subtype = ''mime_type''\<rparr>"

definition output_type_diagnostic :: "'n renderer \<Rightarrow> int \<Rightarrow> nb_output \<Rightarrow> diagnostic" where
  "output_type_diagnostic self ln out =
     \<lparr>message = ''Unsupported output type: '' @ output_type out, line = ln,
      wtype = DEFAULT_LOG_TYPE self, subtype = ''output_type''\<rparr>"

text \<open>
  The exception of a reporter that halts on a warning: \<^verbatim>\<open>SystemMessage\<close>, with the text
  the reporter was given.
\<close>

definition halted :: "diagnostic \<Rightarrow> py_error" where
  "halted d =
     Exc (OtherError ''SystemMessage'')
       [message d @ '' ['' @ wtype d @ ''.'' @ subtype d @ '']'']"

section \<open>A concrete notebook, renderer and parser environment\<close>

definition out_stdout :: nb_output where
  "out_stdout = \<lparr>output_type = ''stream'', name = Some ''stdout'', text' = Some ''a'',
                  data = None, traceback = None\<rparr>"

definition out_stdout_b :: nb_output where
  "out_stdout_b = \<lparr>output_type = ''stream'', name = Some ''stdout'', text' = Some ''b'',
                    data = None, traceback = None\<rparr>"

definition out_stderr :: nb_output where
  "out_stderr = \<lparr>output_type = ''stream'', name = Some ''stderr'', text' = Some ''x'',
                  data = None, traceback = None\<rparr>"

definition out_stdin :: nb_output where
  "out_stdin = \<lparr>output_type = ''stream'', name = Some ''stdin'', text' = Some ''q'',
                 data = None, traceback = None\<rparr>"

definition out_display :: nb_output where
  "out_display = \<lparr>output_type = ''display_data'', name = None, text' = None,
                   data = Some [(''text/plain'', ''fig''), (''image/png'', ''iVBOR'')],
                   traceback = None\<rparr>"

definition out_json :: nb_output where
  "out_json = \<lparr>output_type = ''execute_result'', name = None, text' = None,
                data = Some [(''application/json'', ''{}'')], traceback = None\<rparr>"

definition out_plain :: nb_output where
  "out_plain = \<lparr>output_type = ''display_data'', name = None, text' = None,
                 data = Some [(''text/plain'', ''fig'')], traceback = None\<rparr>"

definition out_widget :: nb_output where
  "out_widget = \<lparr>output_type = ''update_display_data'', name = None, text' = None,
                  data = None, traceback = None\<rparr>"

definition demo_notebook :: notebook where
  "demo_notebook =
     \<lparr>cells = [\<lparr>cell_type = ''code'',
                outputs = Some [out_stdout, out_stdout_b, out_display, out_stderr]\<rparr>,
               \<lparr>cell_type = ''code'', outputs = Some []\<rparr>]\<rparr>"

definition demo_config :: "(string \<times> cfg_value) list" where
  "demo_config =
     [(''remove_code_source'', VBool False),
      (''remove_code_outputs'', VBool False),
      (''merge_streams'', VBool True),
      (''mime_priority'', VList [''text/html'', ''image/png'', ''text/plain'']),
      (''number_source_lines'', VBool False)]"

text \<open>
  The concrete renderer's function for \<^verbatim>\<open>coalesce_streams\<close>: two neighbouring stream
  outputs of the same name become one, with their texts joined.
\<close>

fun join_streams :: "nb_output list \<Rightarrow> nb_output list" where
  "join_streams (a # b # outs) =
     (if output_type a = ''stream'' \<and> output_type b = ''stream'' \<and> name a = name b
      then join_streams
             (a\<lparr>text' := Some ((case text' a of None \<Rightarrow> [] | Some t \<Rightarrow> t)
                                 @ (case text' b of None \<Rightarrow> [] | Some t \<Rightarrow> t))\<rparr> # outs)
      else a # join_streams (b # outs))"
| "join_streams outs = outs"

text \<open>The text of a stream output, empty when the output has none.\<close>

definition stream_text :: "nb_output \<Rightarrow> string" where
  "stream_text out = (case text' out of None \<Rightarrow> [] | Some t \<Rightarrow> t)"

definition demo_renderer :: "string renderer" where
  "demo_renderer =
     \<lparr>render_stdout = (\<lambda>out i ln. [''stdout:'' @ stream_text out]),
      render_stderr = (\<lambda>out i ln. [''stderr:'' @ stream_text out]),
      render_error = (\<lambda>out i ln. [''error'']),
      render_mime_type = (\<lambda>m payload i ln. [m, payload]),
      coalesce_streams = join_streams,
      token_line = (\<lambda>tok. case tok_map tok of
                               None \<Rightarrow> Inl (Exc ValueError [''token map not set''])
                             | Some (a, b) \<Rightarrow> Inr a),
      create_highlighted_code_block = (\<lambda>code lx nl src ln. code),
      DEFAULT_LOG_TYPE = ''mystnb'',
      halt_level = 4,
      nb_config = map_of demo_config,
      config_notebook = demo_notebook,
      self_document_source = ''nb.ipynb''\<rparr>"

text \<open>The same renderer under a reporter that halts on warnings (\<^verbatim>\<open>--halt=warning\<close>).\<close>

definition strict_renderer :: "string renderer" where
  "strict_renderer = demo_renderer\<lparr>halt_level := 2\<rparr>"

definition demo_token :: token where
  "demo_token = \<lparr>index = 0, execution_count = Some 1, tags = None, lexer = Some ''python'',
                  content = ''f()'', tok_map = Some (3, 5)\<rparr>"

definition demo_token_no_input :: token where
  "demo_token_no_input = demo_token\<lparr>tags := Some [''remove-input'']\<rparr>"

definition demo_token_no_output :: token where
  "demo_token_no_output = demo_token\<lparr>tags := Some [''remove_output'']\<rparr>"

definition demo_token_empty :: token where
  "demo_token_empty = demo_token\<lparr>index := 1\<rparr>"

definition demo_env :: "(unit, string, string, token, string, string) parser_env" where
  "demo_env =
     \<lparr>create_myst_config = (\<lambda>s. Inl (Exc ValueError [''bad extension''])),
      create_nb_config = (\<lambda>s. Inl (Exc TypeError [''bad timeout'', ''int''])),
      MdParserConfig = ''md-default'',
      NbParserConfig = \<lparr>read_as_md = False, render_plugin = ''default'',
                        as_dict = map_of demo_config\<rparr>,
      read_myst_markdown_notebook = (\<lambda>c s. Inr demo_notebook),
      standard_nb_read = (\<lambda>s. Inr demo_notebook),
      update_notebook = (\<lambda>nb src c. Inr (nb\<lparr>cells := take 1 (cells nb)\<rparr>, Some ''executed'', [])),
      load_renderer = (\<lambda>n. Inr n),
      notebook_to_tokens = (\<lambda>nb m. Inr ([demo_token], [])),
      md_render = (\<lambda>toks m nb cfg r src. Inr (map content toks, [], [])),
      nbformat_writes = (\<lambda>nb. Inr (concat (map cell_type (cells nb)))),
      encode_utf8 = (\<lambda>s. Inr s)\<rparr>"

definition demo_document :: "unit document" where
  "demo_document = \<lparr>source = ''nb.ipynb'', settings = ()\<rparr>"

definition demo_pstate :: "(string, string) pstate" where
  "demo_pstate = \<lparr>directives = [], logged = [], nb_exec_data = None, doc_children = [],
                   written = []\<rparr>"

section \<open>The loop only appends\<close>

lemma resolve_mime_find:
  "resolve_mime P (Some D) = Inr (find (\<lambda>x. x \<in> fst ` set D) P)"
  by (induction P) (auto simp: map_of_eq_None_iff)

lemma render_output_frame:
  "render_output self i ln mp out st =
     (case render_output self i ln mp out empty_state of
        Inl e \<Rightarrow> Inl e
      | Inr s \<Rightarrow> Inr (st\<lparr>children := children st @ children s,
                         warnings := warnings st @ warnings s\<rparr>))"
  unfolding render_output_def create_warning_def extend_current_def empty_state_def
  by (simp add: Let_def split: option.splits sum.splits)

lemma render_output_emitted:
  "render_output self i ln mp out st = Inr st' \<Longrightarrow>
     st' = st\<lparr>children := children st @ emitted_nodes self i ln mp out,
              warnings := warnings st @ emitted_warnings self i ln mp out\<rparr>"
  using render_output_frame [of self i ln mp out st]
  by (auto simp: emitted_nodes_def emitted_warnings_def split: sum.splits)

lemma loop_emitted:
  "render_outputs_loop self i ln mp outs st = Inr st' \<Longrightarrow>
     st' = st\<lparr>children := children st @ concat (map (emitted_nodes self i ln mp) outs),
              warnings := warnings st @ concat (map (emitted_warnings self i ln mp) outs)\<rparr>"
proof (induction outs arbitrary: st)
  case Nil
  then show ?case by simp
next
  case (Cons out outs)
  from Cons.prems obtain s1 where
    s1: "render_output self i ln mp out st = Inr s1"
    and rest: "render_outputs_loop self i ln mp outs s1 = Inr st'"
    by (auto split: sum.splits)
  show ?case
    using Cons.IH [OF rest] render_output_emitted [OF s1] by simp
qed

section \<open>The mime priority resolver\<close>

text \<open>
  C1. For a \<^verbatim>\<open>display_data\<close> or \<^verbatim>\<open>execute_result\<close> output with data mapping \<open>D\<close> and a
  priority list \<open>P\<close>, the resolver returns the first element of \<open>P\<close>, in the order of
  \<open>P\<close>, that is a key of \<open>D\<close> (\<open>find\<close> returns the first element of a list that
  satisfies a predicate). The result depends on the set of keys of \<open>D\<close> only: a mapping
  \<open>D'\<close> with the same keys in any other iteration order gives the same result. The
  dispatcher then wraps what \<^verbatim>\<open>render_mime_type\<close> returns for that mime type and its
  payload in a container tagged with the mime type.
\<close>

theorem mime_priority_first_present:
  assumes "output_type out = ''display_data'' \<or> output_type out = ''execute_result''"
    and "data out = Some D"
    and "fst ` set D' = fst ` set D"
  shows "resolve_mime P (data out) = Inr (find (\<lambda>x. x \<in> fst ` set D) P)
       \<and> resolve_mime P (Some D') = resolve_mime P (data out)
       \<and> (\<forall>m. find (\<lambda>x. x \<in> fst ` set D) P = Some m \<longrightarrow>
              (\<exists>payload. map_of D m = Some payload
                 \<and> render_output self i ln (VList P) out st =
                     Inr (st\<lparr>children := children st @
                            [Container (MimeContainer m)
                               (map Rendered (render_mime_type self m payload i ln))]\<rparr>)))"
proof -
  have r: "resolve_mime P (data out) = Inr (find (\<lambda>x. x \<in> fst ` set D) P)"
    using assms(2) by (simp add: resolve_mime_find)
  have r': "resolve_mime P (Some D') = resolve_mime P (data out)"
    using assms(3) r by (simp add: resolve_mime_find)
  have ty: "output_type out \<noteq> ''stream''" "output_type out \<noteq> ''error''"
    using assms(1) by auto
  have "\<exists>payload. map_of D m = Some payload
          \<and> render_output self i ln (VList P) out st =
              Inr (st\<lparr>children := children st @
                     [Container (MimeContainer m)
                        (map Rendered (render_mime_type self m payload i ln))]\<rparr>)"
    if m: "find (\<lambda>x. x \<in> fst ` set D) P = Some m" for m
  proof -
    from m have "m \<in> fst ` set D" by (auto simp: find_Some_iff)
    then obtain payload where p: "map_of D m = Some payload"
      by (metis map_of_eq_None_iff not_Some_eq)
    have "render_output self i ln (VList P) out st =
            Inr (st\<lparr>children := children st @
                   [Container (MimeContainer m)
                      (map Rendered (render_mime_type self m payload i ln))]\<rparr>)"
      using assms(1,2) ty r m p by (auto simp: render_output_def)
    with p show ?thesis by blast
  qed
  with r r' show ?thesis by blast
qed

lemma demo_find:
  "find (\<lambda>x. x \<in> fst ` set [(''text/plain'', ''fig''), (''image/png'', ''iVBOR'')])
     [''text/html'', ''image/png'', ''text/plain''] = Some ''image/png''"
  by simp

theorem mime_priority_first_present_witness:
  "(output_type out_display = ''display_data'' \<or> output_type out_display = ''execute_result'')
   \<and> data out_display = Some [(''text/plain'', ''fig''), (''image/png'', ''iVBOR'')]
   \<and> fst ` set [(''image/png'', ''iVBOR''), (''text/plain'', ''fig'')]
        = fst ` set [(''text/plain'', ''fig''), (''image/png'', ''iVBOR'')]
   \<and> resolve_mime [''text/html'', ''image/png'', ''text/plain''] (data out_display)
        = Inr (Some ''image/png'')
   \<and> resolve_mime [''text/html'', ''image/png'', ''text/plain'']
        (Some [(''image/png'', ''iVBOR''), (''text/plain'', ''fig'')]) = Inr (Some ''image/png'')
   \<and> render_output demo_renderer 0 3 (VList [''text/html'', ''image/png'', ''text/plain''])
        out_display empty_state
        = Inr \<lparr>children = [Container (MimeContainer ''image/png'')
                               [Rendered ''image/png'', Rendered ''iVBOR'']],
               warnings = []\<rparr>"
proof -
  have h1: "output_type out_display = ''display_data'' \<or> output_type out_display = ''execute_result''"
    by (simp add: out_display_def)
  have h2: "data out_display = Some [(''text/plain'', ''fig''), (''image/png'', ''iVBOR'')]"
    by (simp add: out_display_def)
  have h3: "fst ` set [(''image/png'', ''iVBOR''), (''text/plain'', ''fig'')]
        = fst ` set [(''text/plain'', ''fig''), (''image/png'', ''iVBOR'')]"
    by auto
  show ?thesis
    using mime_priority_first_present [OF h1 h2 h3,
        of "[''text/html'', ''image/png'', ''text/plain'']" demo_renderer 0 3 empty_state]
      h1 h2 h3
    unfolding demo_find
    by (simp add: demo_renderer_def empty_state_def)
qed

section \<open>Outputs that are skipped with a diagnostic\<close>

lemma resolve_mime_none:
  "\<forall>x\<in>set P. x \<notin> fst ` set D \<Longrightarrow> resolve_mime P (Some D) = Inr None"
  by (simp add: resolve_mime_find find_None_iff)

lemma loop_after_ok:
  "render_output self i ln mp out st = Inr s \<Longrightarrow>
   render_outputs_loop self i ln mp (out # rest) st = render_outputs_loop self i ln mp rest s"
  by simp

text \<open>
  C2. A \<^verbatim>\<open>display_data\<close> or \<^verbatim>\<open>execute_result\<close> output whose data has no key from the
  priority list makes the dispatcher call \<^verbatim>\<open>create_warning\<close> exactly once, with the
  message "No output mime type found from render_priority" and the subtype
  \<^verbatim>\<open>mime_type\<close>. Under a reporter that does not halt on warnings, one node is appended for
  that output, the system message of that warning, and nothing else: no node of a
  rendering capability and no container. The loop then goes on with the outputs that
  follow, which add the nodes and warnings they add on their own. Under a reporter that
  halts on warnings the call raises \<^verbatim>\<open>SystemMessage\<close>, which ends the loop.
\<close>

theorem no_mime_type_warns_and_skips:
  assumes "output_type out = ''display_data'' \<or> output_type out = ''execute_result''"
    and "data out = Some D"
    and "py_iter mime_priority = Inr P"
    and "\<forall>x\<in>set P. x \<notin> fst ` set D"
  shows "render_output self i ln mime_priority out st =
           (if 2 < halt_level self
            then Inr (st\<lparr>children := children st @ [SystemMessage (no_mime_diagnostic self ln)],
                         warnings := warnings st @ [no_mime_diagnostic self ln]\<rparr>)
            else Inl (halted (no_mime_diagnostic self ln)))
       \<and> (2 < halt_level self \<longrightarrow>
            emitted_warnings self i ln mime_priority out = [no_mime_diagnostic self ln]
          \<and> emitted_nodes self i ln mime_priority out
              = [SystemMessage (no_mime_diagnostic self ln)]
          \<and> render_outputs_loop self i ln mime_priority (out # rest) st =
              render_outputs_loop self i ln mime_priority rest
                (st\<lparr>children := children st @ [SystemMessage (no_mime_diagnostic self ln)],
                    warnings := warnings st @ [no_mime_diagnostic self ln]\<rparr>)
          \<and> (\<forall>st'. render_outputs_loop self i ln mime_priority (out # rest) st = Inr st' \<longrightarrow>
                children st' = children st @ SystemMessage (no_mime_diagnostic self ln) #
                  concat (map (emitted_nodes self i ln mime_priority) rest)
              \<and> warnings st' = warnings st @ no_mime_diagnostic self ln #
                  concat (map (emitted_warnings self i ln mime_priority) rest)))
       \<and> (halt_level self \<le> 2 \<longrightarrow>
            render_outputs_loop self i ln mime_priority (out # rest) st
              = Inl (halted (no_mime_diagnostic self ln)))"
proof -
  have ty: "output_type out \<noteq> ''stream''" "output_type out \<noteq> ''error''"
    using assms(1) by auto
  have res: "resolve_mime P (data out) = Inr None"
    using assms(2,4) by (simp add: resolve_mime_none)
  have one: "render_output self i ln mime_priority out s =
           (if 2 < halt_level self
            then Inr (s\<lparr>children := children s @ [SystemMessage (no_mime_diagnostic self ln)],
                        warnings := warnings s @ [no_mime_diagnostic self ln]\<rparr>)
            else Inl (halted (no_mime_diagnostic self ln)))" for s :: "'a rstate"
    using assms(1,3) ty res
    by (auto simp: render_output_def create_warning_def no_mime_diagnostic_def halted_def Let_def)
  have halts: "render_outputs_loop self i ln mime_priority (out # rest) st
      = Inl (halted (no_mime_diagnostic self ln))" if "halt_level self \<le> 2"
    using that by (simp add: one)
  have ew: "emitted_warnings self i ln mime_priority out = [no_mime_diagnostic self ln]"
    if "2 < halt_level self"
    using that by (simp add: emitted_warnings_def one empty_state_def)
  have en: "emitted_nodes self i ln mime_priority out = [SystemMessage (no_mime_diagnostic self ln)]"
    if "2 < halt_level self"
    using that by (simp add: emitted_nodes_def one empty_state_def)
  show ?thesis
  proof (intro conjI impI allI)
    show "render_output self i ln mime_priority out st =
           (if 2 < halt_level self
            then Inr (st\<lparr>children := children st @ [SystemMessage (no_mime_diagnostic self ln)],
                         warnings := warnings st @ [no_mime_diagnostic self ln]\<rparr>)
            else Inl (halted (no_mime_diagnostic self ln)))"
      by (rule one)
  next
    assume "2 < halt_level self"
    then show "emitted_warnings self i ln mime_priority out = [no_mime_diagnostic self ln]"
      by (rule ew)
  next
    assume "2 < halt_level self"
    then show "emitted_nodes self i ln mime_priority out = [SystemMessage (no_mime_diagnostic self ln)]"
      by (rule en)
  next
    assume "2 < halt_level self"
    then show "render_outputs_loop self i ln mime_priority (out # rest) st =
              render_outputs_loop self i ln mime_priority rest
                (st\<lparr>children := children st @ [SystemMessage (no_mime_diagnostic self ln)],
                    warnings := warnings st @ [no_mime_diagnostic self ln]\<rparr>)"
      by (simp add: one)
  next
    fix st'
    assume ok: "2 < halt_level self"
      and run: "render_outputs_loop self i ln mime_priority (out # rest) st = Inr st'"
    show "children st' = children st @ SystemMessage (no_mime_diagnostic self ln) #
                  concat (map (emitted_nodes self i ln mime_priority) rest)"
      using loop_emitted [OF run] by (simp add: en [OF ok])
  next
    fix st'
    assume ok: "2 < halt_level self"
      and run: "render_outputs_loop self i ln mime_priority (out # rest) st = Inr st'"
    show "warnings st' = warnings st @ no_mime_diagnostic self ln #
                  concat (map (emitted_warnings self i ln mime_priority) rest)"
      using loop_emitted [OF run] by (simp add: ew [OF ok])
  next
    assume "halt_level self \<le> 2"
    then show "render_outputs_loop self i ln mime_priority (out # rest) st
              = Inl (halted (no_mime_diagnostic self ln))"
      by (rule halts)
  qed
qed

text \<open>
  The priority list \<^verbatim>\<open>["image/png"]\<close> and an output that has \<^verbatim>\<open>text/plain\<close> only, followed
  by a stdout stream, under a reporter with the halt level 4.
\<close>

theorem no_mime_type_warns_and_skips_witness:
  "output_type out_plain = ''display_data''
   \<and> data out_plain = Some [(''text/plain'', ''fig'')]
   \<and> py_iter (VList [''image/png'']) = Inr [''image/png'']
   \<and> ''image/png'' \<notin> fst ` set [(''text/plain'', ''fig'')]
   \<and> 2 < halt_level demo_renderer
   \<and> render_output demo_renderer 0 3 (VList [''image/png'']) out_plain empty_state =
       Inr \<lparr>children = [SystemMessage (no_mime_diagnostic demo_renderer 3)],
             warnings = [no_mime_diagnostic demo_renderer 3]\<rparr>
   \<and> render_outputs_loop demo_renderer 0 3 (VList [''image/png''])
         [out_plain, out_stdout] empty_state =
       Inr \<lparr>children = [SystemMessage (no_mime_diagnostic demo_renderer 3), Rendered ''stdout:a''],
             warnings = [no_mime_diagnostic demo_renderer 3]\<rparr>"
proof -
  have h1: "output_type out_plain = ''display_data'' \<or> output_type out_plain = ''execute_result''"
    by (simp add: out_plain_def)
  have h2: "data out_plain = Some [(''text/plain'', ''fig'')]"
    by (simp add: out_plain_def)
  have h3: "py_iter (VList [''image/png'']) = Inr [''image/png'']"
    by simp
  have h4: "\<forall>x\<in>set [''image/png'']. x \<notin> fst ` set [(''text/plain'', ''fig'')]"
    by simp
  have h5: "2 < halt_level demo_renderer"
    by (simp add: demo_renderer_def)
  have next_out: "render_output demo_renderer 0 3 (VList [''image/png'']) out_stdout s =
      Inr (s\<lparr>children := children s @ [Rendered ''stdout:a'']\<rparr>)" for s :: "string rstate"
    by (simp add: render_output_def out_stdout_def demo_renderer_def extend_current_def
          stream_text_def)
  show ?thesis
    using no_mime_type_warns_and_skips
            [OF h1 h2 h3 h4, where self = demo_renderer and i = 0 and ln = 3
               and rest = "[out_stdout]" and st = empty_state]
      h1 h2 h5
    by (simp add: next_out empty_state_def out_plain_def)
qed

text \<open>
  C2, as stated, fails in two ways. The output with \<^verbatim>\<open>text/plain\<close> only, under the priority
  list \<^verbatim>\<open>["image/png"]\<close>, does get a node: the system message of the warning, which
  \<^verbatim>\<open>create_warning\<close> appends to the current node. And under a reporter that halts on
  warnings the warning raises, so the stdout stream that follows is not rendered.
\<close>

theorem no_mime_type_appends_system_message:
  "output_type out_plain = ''display_data''
   \<and> map_of [(''text/plain'', ''fig'')] ''image/png'' = None
   \<and> data out_plain = Some [(''text/plain'', ''fig'')]
   \<and> emitted_nodes demo_renderer 0 3 (VList [''image/png'']) out_plain
       = [SystemMessage (no_mime_diagnostic demo_renderer 3)]
   \<and> emitted_nodes demo_renderer 0 3 (VList [''image/png'']) out_plain \<noteq> []
   \<and> render_outputs_loop strict_renderer 0 3 (VList [''image/png''])
         [out_plain, out_stdout] empty_state
       = Inl (Exc (OtherError ''SystemMessage'')
                [''No output mime type found from render_priority [mystnb.mime_type]''])"
  by (simp add: emitted_nodes_def render_output_def create_warning_def no_mime_diagnostic_def
        out_plain_def demo_renderer_def strict_renderer_def empty_state_def Let_def)

text \<open>
  C4. An output whose type is none of \<^verbatim>\<open>stream\<close>, \<^verbatim>\<open>error\<close>, \<^verbatim>\<open>display_data\<close> and
  \<^verbatim>\<open>execute_result\<close> makes the dispatcher call \<^verbatim>\<open>create_warning\<close> exactly once, with the
  message "Unsupported output type: " followed by the type and the subtype
  \<^verbatim>\<open>output_type\<close>. Under a reporter that does not halt on warnings, one node is appended
  for that output, the system message of that warning, and nothing else, and the loop goes
  on with the outputs that follow. Under a reporter that halts on warnings the call raises
  \<^verbatim>\<open>SystemMessage\<close>, which ends the loop.
\<close>

theorem unsupported_output_type_warns_and_skips:
  assumes "output_type out \<notin> {''stream'', ''error'', ''display_data'', ''execute_result''}"
  shows "render_output self i ln mime_priority out st =
           (if 2 < halt_level self
            then Inr (st\<lparr>children := children st @
                           [SystemMessage (output_type_diagnostic self ln out)],
                         warnings := warnings st @ [output_type_diagnostic self ln out]\<rparr>)
            else Inl (halted (output_type_diagnostic self ln out)))
       \<and> (2 < halt_level self \<longrightarrow>
            emitted_warnings self i ln mime_priority out = [output_type_diagnostic self ln out]
          \<and> emitted_nodes self i ln mime_priority out
              = [SystemMessage (output_type_diagnostic self ln out)]
          \<and> render_outputs_loop self i ln mime_priority (out # rest) st =
              render_outputs_loop self i ln mime_priority rest
                (st\<lparr>children := children st @
                      [SystemMessage (output_type_diagnostic self ln out)],
                    warnings := warnings st @ [output_type_diagnostic self ln out]\<rparr>)
          \<and> (\<forall>st'. render_outputs_loop self i ln mime_priority (out # rest) st = Inr st' \<longrightarrow>
                children st' = children st @ SystemMessage (output_type_diagnostic self ln out) #
                  concat (map (emitted_nodes self i ln mime_priority) rest)
              \<and> warnings st' = warnings st @ output_type_diagnostic self ln out #
                  concat (map (emitted_warnings self i ln mime_priority) rest)))
       \<and> (halt_level self \<le> 2 \<longrightarrow>
            render_outputs_loop self i ln mime_priority (out # rest) st
              = Inl (halted (output_type_diagnostic self ln out)))"
proof -
  have one: "render_output self i ln mime_priority out s =
           (if 2 < halt_level self
            then Inr (s\<lparr>children := children s @
                          [SystemMessage (output_type_diagnostic self ln out)],
                        warnings := warnings s @ [output_type_diagnostic self ln out]\<rparr>)
            else Inl (halted (output_type_diagnostic self ln out)))"
    for s :: "'a rstate"
    using assms
    by (auto simp: render_output_def create_warning_def output_type_diagnostic_def halted_def
          Let_def)
  have halts: "render_outputs_loop self i ln mime_priority (out # rest) st
      = Inl (halted (output_type_diagnostic self ln out))" if "halt_level self \<le> 2"
    using that by (simp add: one)
  have ew: "emitted_warnings self i ln mime_priority out = [output_type_diagnostic self ln out]"
    if "2 < halt_level self"
    using that by (simp add: emitted_warnings_def one empty_state_def)
  have en: "emitted_nodes self i ln mime_priority out = [SystemMessage (output_type_diagnostic self ln out)]"
    if "2 < halt_level self"
    using that by (simp add: emitted_nodes_def one empty_state_def)
  show ?thesis
  proof (intro conjI impI allI)
    show "render_output self i ln mime_priority out st =
           (if 2 < halt_level self
            then Inr (st\<lparr>children := children st @ [SystemMessage (output_type_diagnostic self ln out)],
                         warnings := warnings st @ [output_type_diagnostic self ln out]\<rparr>)
            else Inl (halted (output_type_diagnostic self ln out)))"
      by (rule one)
  next
    assume "2 < halt_level self"
    then show "emitted_warnings self i ln mime_priority out = [output_type_diagnostic self ln out]"
      by (rule ew)
  next
    assume "2 < halt_level self"
    then show "emitted_nodes self i ln mime_priority out = [SystemMessage (output_type_diagnostic self ln out)]"
      by (rule en)
  next
    assume "2 < halt_level self"
    then show "render_outputs_loop self i ln mime_priority (out # rest) st =
              render_outputs_loop self i ln mime_priority rest
                (st\<lparr>children := children st @ [SystemMessage (output_type_diagnostic self ln out)],
                    warnings := warnings st @ [output_type_diagnostic self ln out]\<rparr>)"
      by (simp add: one)
  next
    fix st'
    assume ok: "2 < halt_level self"
      and run: "render_outputs_loop self i ln mime_priority (out # rest) st = Inr st'"
    show "children st' = children st @ SystemMessage (output_type_diagnostic self ln out) #
                  concat (map (emitted_nodes self i ln mime_priority) rest)"
      using loop_emitted [OF run] by (simp add: en [OF ok])
  next
    fix st'
    assume ok: "2 < halt_level self"
      and run: "render_outputs_loop self i ln mime_priority (out # rest) st = Inr st'"
    show "warnings st' = warnings st @ output_type_diagnostic self ln out #
                  concat (map (emitted_warnings self i ln mime_priority) rest)"
      using loop_emitted [OF run] by (simp add: ew [OF ok])
  next
    assume "halt_level self \<le> 2"
    then show "render_outputs_loop self i ln mime_priority (out # rest) st
              = Inl (halted (output_type_diagnostic self ln out))"
      by (rule halts)
  qed
qed

text \<open>
  An output of type \<^verbatim>\<open>update_display_data\<close>, followed by a stdout stream, under a
  reporter with the halt level 4.
\<close>

theorem unsupported_output_type_warns_and_skips_witness:
  "output_type out_widget = ''update_display_data''
   \<and> 2 < halt_level demo_renderer
   \<and> render_output demo_renderer 0 3 (VList [''image/png'']) out_widget empty_state =
       Inr \<lparr>children = [SystemMessage (output_type_diagnostic demo_renderer 3 out_widget)],
             warnings = [output_type_diagnostic demo_renderer 3 out_widget]\<rparr>
   \<and> message (output_type_diagnostic demo_renderer 3 out_widget)
       = ''Unsupported output type: update_display_data''
   \<and> render_outputs_loop demo_renderer 0 3 (VList [''image/png''])
         [out_widget, out_stdout] empty_state =
       Inr \<lparr>children = [SystemMessage (output_type_diagnostic demo_renderer 3 out_widget),
                         Rendered ''stdout:a''],
             warnings = [output_type_diagnostic demo_renderer 3 out_widget]\<rparr>"
proof -
  have h: "output_type out_widget \<notin> {''stream'', ''error'', ''display_data'', ''execute_result''}"
    by (simp add: out_widget_def)
  have h5: "2 < halt_level demo_renderer"
    by (simp add: demo_renderer_def)
  have next_out: "render_output demo_renderer 0 3 (VList [''image/png'']) out_stdout s =
      Inr (s\<lparr>children := children s @ [Rendered ''stdout:a'']\<rparr>)" for s :: "string rstate"
    by (simp add: render_output_def out_stdout_def demo_renderer_def extend_current_def
          stream_text_def)
  show ?thesis
    using unsupported_output_type_warns_and_skips
            [OF h, where self = demo_renderer and i = 0 and ln = 3
               and mime_priority = "VList [''image/png'']"
               and rest = "[out_stdout]" and st = empty_state] h5
    by (simp add: next_out empty_state_def out_widget_def output_type_diagnostic_def)
qed

text \<open>
  C4, as stated, fails in two ways. The output of type \<^verbatim>\<open>update_display_data\<close> does get a
  node: the system message of the warning, which \<^verbatim>\<open>create_warning\<close> appends to the current
  node. And under a reporter that halts on warnings the warning raises, so the stdout
  stream that follows is not rendered.
\<close>

theorem unsupported_output_type_appends_system_message:
  "output_type out_widget = ''update_display_data''
   \<and> emitted_nodes demo_renderer 0 3 (VList [''image/png'']) out_widget
       = [SystemMessage (output_type_diagnostic demo_renderer 3 out_widget)]
   \<and> emitted_nodes demo_renderer 0 3 (VList [''image/png'']) out_widget \<noteq> []
   \<and> render_outputs_loop strict_renderer 0 3 (VList [''image/png''])
         [out_widget, out_stdout] empty_state
       = Inl (Exc (OtherError ''SystemMessage'')
                [''Unsupported output type: update_display_data [mystnb.output_type]''])"
  by (simp add: emitted_nodes_def render_output_def create_warning_def
        output_type_diagnostic_def out_widget_def demo_renderer_def strict_renderer_def
        empty_state_def Let_def)

section \<open>Stream outputs\<close>

text \<open>
  C3. What the dispatcher does with a stream output: the name \<^verbatim>\<open>stdout\<close> calls
  \<^verbatim>\<open>render_stdout\<close>, the name \<^verbatim>\<open>stderr\<close> calls \<^verbatim>\<open>render_stderr\<close>, and any other name
  takes the branch \<^verbatim>\<open>pass  # TODO warning\<close>: the state is returned as it was, with no node
  and no diagnostic.
\<close>

theorem stream_dispatch_by_name:
  assumes "output_type out = ''stream''" and "name out = Some n"
  shows "render_output self i ln mp out st =
           (if n = ''stdout'' then
              Inr (st\<lparr>children := children st @ map Rendered (render_stdout self out i ln)\<rparr>)
            else if n = ''stderr'' then
              Inr (st\<lparr>children := children st @ map Rendered (render_stderr self out i ln)\<rparr>)
            else Inr st)"
  using assms by (simp add: render_output_def extend_current_def)

text \<open>
  A stream named \<^verbatim>\<open>stdin\<close> leaves the empty state empty: nothing is reported.
\<close>

theorem stream_dispatch_by_name_witness:
  "output_type out_stdin = ''stream'' \<and> name out_stdin = Some ''stdin''
   \<and> render_output demo_renderer 0 3 (VList [''image/png'']) out_stdin empty_state
       = Inr empty_state
   \<and> warnings (empty_state :: string rstate) = []
   \<and> children (empty_state :: string rstate) = []"
proof -
  have h1: "output_type out_stdin = ''stream''" by (simp add: out_stdin_def)
  have h2: "name out_stdin = Some ''stdin''" by (simp add: out_stdin_def)
  show ?thesis
    using stream_dispatch_by_name
            [OF h1 h2, where self = demo_renderer and i = 0 and ln = 3
               and mp = "VList [''image/png'']" and st = empty_state] h1 h2
    by (simp add: empty_state_def)
qed

section \<open>The configuration lookup\<close>

text \<open>
  C10. \<^verbatim>\<open>get_nb_config\<close> does not read its cell index: for every key the lookup gives the
  same value, or raises the same \<^verbatim>\<open>KeyError\<close>, at any two cell indices (also at
  \<^verbatim>\<open>None\<close>).
\<close>

theorem get_nb_config_ignores_cell_index:
  "get_nb_config self key i = get_nb_config self key j"
  by (simp add: get_nb_config_def)

section \<open>The containers of a code cell\<close>

lemma current_node_context_result:
  "current_node_context kind body st = Inr st' \<Longrightarrow>
   \<exists>s. body (st\<lparr>children := []\<rparr>) = Inr s
        \<and> st' = s\<lparr>children := children st @ [Container kind (children s)]\<rparr>"
  by (auto simp: current_node_context_def split: sum.splits)

lemma source_part_result:
  assumes "render_cell_source_part self tok st = Inr s"
  shows "s = st \<or> (\<exists>b. s = st\<lparr>children := children st @ [Container CellCodeSource [Rendered b]]\<rparr>)"
proof -
  from assms obtain v where v: "get_nb_config self ''remove_code_source'' (Some (index tok)) = Inr v"
    by (auto simp: render_cell_source_part_def split: sum.splits)
  show ?thesis
  proof (cases "(\<not> truthy v) \<and> ''remove_input'' \<notin> set (get_tags tok)
                  \<and> ''remove-input'' \<notin> set (get_tags tok)")
    case True
    with assms v have
      "current_node_context CellCodeSource (render_nb_cell_code_source self tok) st = Inr s"
      by (simp add: render_cell_source_part_def)
    from current_node_context_result [OF this] obtain s1 where
      s1: "render_nb_cell_code_source self tok (st\<lparr>children := []\<rparr>) = Inr s1"
      and s: "s = s1\<lparr>children := children st @ [Container CellCodeSource (children s1)]\<rparr>"
      by blast
    from s1 obtain b where "s1 = st\<lparr>children := [Rendered b]\<rparr>"
      by (auto simp: render_nb_cell_code_source_def extend_current_def Let_def split: sum.splits)
    with s show ?thesis by auto
  next
    case False
    with assms v have "s = st" by (auto simp: render_cell_source_part_def)
    then show ?thesis by simp
  qed
qed

lemma source_part_tagged:
  assumes "''remove_input'' \<in> set (get_tags tok) \<or> ''remove-input'' \<in> set (get_tags tok)"
    and "render_cell_source_part self tok st = Inr s"
  shows "s = st"
  using assms by (auto simp: render_cell_source_part_def split: sum.splits)

lemma outputs_result:
  assumes "render_nb_cell_code_outputs self tok st = Inr s"
  shows "\<exists>ln c merge mp. token_line self tok = Inr ln
           \<and> notebook_cell self (index tok) = Inr c
           \<and> get_nb_config self ''merge_streams'' (Some (index tok)) = Inr merge
           \<and> get_nb_config self ''mime_priority'' (Some (index tok)) = Inr mp
           \<and> s = st\<lparr>children := children st @
                     concat (map (emitted_nodes self (index tok) ln mp) (walked_outputs self merge c)),
                   warnings := warnings st @
                     concat (map (emitted_warnings self (index tok) ln mp) (walked_outputs self merge c))\<rparr>"
proof -
  from assms obtain ln c merge mp where
    a: "token_line self tok = Inr ln" "notebook_cell self (index tok) = Inr c"
       "get_nb_config self ''merge_streams'' (Some (index tok)) = Inr merge"
       "get_nb_config self ''mime_priority'' (Some (index tok)) = Inr mp"
    and l: "render_outputs_loop self (index tok) ln mp (walked_outputs self merge c) st = Inr s"
    by (auto simp: render_nb_cell_code_outputs_def walked_outputs_def Let_def split: sum.splits)
  from loop_emitted [OF l] a show ?thesis by blast
qed

lemma output_part_result:
  assumes "render_cell_output_part self tok st = Inr s"
  shows "s = st \<or> (\<exists>ln c merge mp. token_line self tok = Inr ln
           \<and> notebook_cell self (index tok) = Inr c
           \<and> get_nb_config self ''merge_streams'' (Some (index tok)) = Inr merge
           \<and> get_nb_config self ''mime_priority'' (Some (index tok)) = Inr mp
           \<and> get_outputs c \<noteq> []
           \<and> ''remove_output'' \<notin> set (get_tags tok) \<and> ''remove-output'' \<notin> set (get_tags tok)
           \<and> s = st\<lparr>children := children st @
                     [Container CellCodeOutput
                        (concat (map (emitted_nodes self (index tok) ln mp)
                                   (walked_outputs self merge c)))],
                   warnings := warnings st @
                     concat (map (emitted_warnings self (index tok) ln mp)
                               (walked_outputs self merge c))\<rparr>)"
proof -
  from assms obtain c where c: "notebook_cell self (index tok) = Inr c"
    by (auto simp: render_cell_output_part_def split: sum.splits)
  show ?thesis
  proof (cases "get_outputs c = []")
    case True
    with assms c show ?thesis by (simp add: render_cell_output_part_def)
  next
    case False
    with assms c obtain v where
      v: "get_nb_config self ''remove_code_outputs'' (Some (index tok)) = Inr v"
      by (auto simp: render_cell_output_part_def split: sum.splits)
    show ?thesis
    proof (cases "(\<not> truthy v) \<and> ''remove_output'' \<notin> set (get_tags tok)
                    \<and> ''remove-output'' \<notin> set (get_tags tok)")
      case True
      with assms c v False have
        "current_node_context CellCodeOutput (render_nb_cell_code_outputs self tok) st = Inr s"
        by (simp add: render_cell_output_part_def)
      from current_node_context_result [OF this] obtain s1 where
        s1: "render_nb_cell_code_outputs self tok (st\<lparr>children := []\<rparr>) = Inr s1"
        and s: "s = s1\<lparr>children := children st @ [Container CellCodeOutput (children s1)]\<rparr>"
        by blast
      from outputs_result [OF s1] c s True False show ?thesis by auto
    next
      case F2: False
      with assms c v False have "s = st" by (auto simp: render_cell_output_part_def)
      then show ?thesis by simp
    qed
  qed
qed

lemma output_part_tagged:
  assumes "''remove_output'' \<in> set (get_tags tok) \<or> ''remove-output'' \<in> set (get_tags tok)"
    and "render_cell_output_part self tok st = Inr s"
  shows "s = st"
  using output_part_result [OF assms(2)] assms(1) by auto

lemma cell_code_result:
  assumes "render_nb_cell_code self tok st = Inr st'"
  shows "\<exists>s1 s2. render_cell_source_part self tok (st\<lparr>children := []\<rparr>) = Inr s1
           \<and> render_cell_output_part self tok s1 = Inr s2
           \<and> st' = s2\<lparr>children := children st @ [Container (cell_container_kind tok) (children s2)]\<rparr>"
proof -
  from assms have
    "current_node_context (cell_container_kind tok)
       (\<lambda>s. case render_cell_source_part self tok s of
               Inl e \<Rightarrow> Inl e
             | Inr s' \<Rightarrow> render_cell_output_part self tok s') st = Inr st'"
    by (simp add: render_nb_cell_code_def cell_container_kind_def Let_def)
  from current_node_context_result [OF this] show ?thesis
    by (auto split: sum.splits)
qed

lemma cell_code_shape:
  assumes "render_nb_cell_code self tok st = Inr st'"
  shows "\<exists>src outp.
           children st' = children st @ [Container (cell_container_kind tok) (src @ outp)]
         \<and> (src = [] \<or> (\<exists>b. src = [Container CellCodeSource [Rendered b]]))
         \<and> (''remove_input'' \<in> set (get_tags tok) \<or> ''remove-input'' \<in> set (get_tags tok)
              \<longrightarrow> src = [])
         \<and> (outp = [] \<or>
              (\<exists>ln c merge mp. token_line self tok = Inr ln
                 \<and> notebook_cell self (index tok) = Inr c
                 \<and> get_nb_config self ''merge_streams'' (Some (index tok)) = Inr merge
                 \<and> get_nb_config self ''mime_priority'' (Some (index tok)) = Inr mp
                 \<and> get_outputs c \<noteq> []
                 \<and> ''remove_output'' \<notin> set (get_tags tok)
                 \<and> ''remove-output'' \<notin> set (get_tags tok)
                 \<and> outp = [Container CellCodeOutput
                              (concat (map (emitted_nodes self (index tok) ln mp)
                                         (walked_outputs self merge c)))]))"
proof -
  from cell_code_result [OF assms] obtain s1 s2 where
    s1: "render_cell_source_part self tok (st\<lparr>children := []\<rparr>) = Inr s1"
    and s2: "render_cell_output_part self tok s1 = Inr s2"
    and st': "st' = s2\<lparr>children := children st @ [Container (cell_container_kind tok) (children s2)]\<rparr>"
    by blast
  define src where "src = children s1"
  have src: "src = [] \<or> (\<exists>b. src = [Container CellCodeSource [Rendered b]])"
    using source_part_result [OF s1] by (auto simp: src_def)
  have tagged: "src = []"
    if "''remove_input'' \<in> set (get_tags tok) \<or> ''remove-input'' \<in> set (get_tags tok)"
    using source_part_tagged [OF that s1] by (simp add: src_def)
  from output_part_result [OF s2] show ?thesis
  proof
    assume "s2 = s1"
    then have "children s2 = src @ []" by (simp add: src_def)
    with st' src tagged show ?thesis by (intro exI [of _ src] exI [of _ "[]"]) auto
  next
    assume "\<exists>ln c merge mp. token_line self tok = Inr ln
           \<and> notebook_cell self (index tok) = Inr c
           \<and> get_nb_config self ''merge_streams'' (Some (index tok)) = Inr merge
           \<and> get_nb_config self ''mime_priority'' (Some (index tok)) = Inr mp
           \<and> get_outputs c \<noteq> []
           \<and> ''remove_output'' \<notin> set (get_tags tok) \<and> ''remove-output'' \<notin> set (get_tags tok)
           \<and> s2 = s1\<lparr>children := children s1 @
                     [Container CellCodeOutput
                        (concat (map (emitted_nodes self (index tok) ln mp)
                                   (walked_outputs self merge c)))],
                   warnings := warnings s1 @
                     concat (map (emitted_warnings self (index tok) ln mp)
                               (walked_outputs self merge c))\<rparr>"
    then obtain ln c merge mp where
      a: "token_line self tok = Inr ln" "notebook_cell self (index tok) = Inr c"
         "get_nb_config self ''merge_streams'' (Some (index tok)) = Inr merge"
         "get_nb_config self ''mime_priority'' (Some (index tok)) = Inr mp"
         "get_outputs c \<noteq> []"
         "''remove_output'' \<notin> set (get_tags tok)" "''remove-output'' \<notin> set (get_tags tok)"
      and c2: "children s2 = src @ [Container CellCodeOutput
                        (concat (map (emitted_nodes self (index tok) ln mp)
                                   (walked_outputs self merge c)))]"
      by (auto simp: src_def)
    show ?thesis
      apply (rule exI [of _ src])
      apply (rule exI [of _ "[Container CellCodeOutput
                        (concat (map (emitted_nodes self (index tok) ln mp)
                                   (walked_outputs self merge c)))]"])
      using st' src tagged a c2 by auto
  qed
qed

lemma demo_cell_rendered:
  "render_nb_cell_code demo_renderer demo_token empty_state =
     Inr \<lparr>children =
        [Container (CellCode 0 (Some 1) None [''cell''])
          [Container CellCodeSource [Rendered ''f()''],
           Container CellCodeOutput
            [Rendered ''stdout:ab'',
             Container (MimeContainer ''image/png'')
              [Rendered ''image/png'', Rendered ''iVBOR''],
             Rendered ''stderr:x'']]],
        warnings = []\<rparr>"
  by (simp add: render_nb_cell_code_def render_cell_source_part_def render_cell_output_part_def
        render_nb_cell_code_source_def render_nb_cell_code_outputs_def current_node_context_def
        render_output_def notebook_cell_def get_outputs_def get_nb_config_def get_tags_def
        extend_current_def create_warning_def replace_space_def
        demo_renderer_def demo_token_def demo_notebook_def demo_config_def empty_state_def
        out_stdout_def out_stdout_b_def out_stderr_def out_display_def stream_text_def Let_def)

lemmas demo_eval_defs =
  render_nb_cell_code_def render_cell_source_part_def render_cell_output_part_def
  render_nb_cell_code_source_def render_nb_cell_code_outputs_def current_node_context_def
  render_output_def notebook_cell_def get_outputs_def get_nb_config_def get_tags_def
  extend_current_def create_warning_def replace_space_def
  demo_renderer_def demo_token_def demo_notebook_def demo_config_def empty_state_def
  out_stdout_def out_stdout_b_def out_stderr_def out_display_def stream_text_def Let_def
  demo_token_no_input_def demo_token_no_output_def demo_token_empty_def

lemma demo_cell_no_input_rendered:
  "render_nb_cell_code demo_renderer demo_token_no_input empty_state =
     Inr \<lparr>children =
        [Container (CellCode 0 (Some 1) (Some [''remove-input'']) [''cell'', ''tag_remove-input''])
          [Container CellCodeOutput
            [Rendered ''stdout:ab'',
             Container (MimeContainer ''image/png'')
              [Rendered ''image/png'', Rendered ''iVBOR''],
             Rendered ''stderr:x'']]],
        warnings = []\<rparr>"
  by (simp add: demo_eval_defs)

lemma demo_cell_no_output_rendered:
  "render_nb_cell_code demo_renderer demo_token_no_output empty_state =
     Inr \<lparr>children =
        [Container (CellCode 0 (Some 1) (Some [''remove_output'']) [''cell'', ''tag_remove_output''])
          [Container CellCodeSource [Rendered ''f()'']]],
        warnings = []\<rparr>"
  by (simp add: demo_eval_defs)

lemma demo_cell_empty_rendered:
  "render_nb_cell_code demo_renderer demo_token_empty empty_state =
     Inr \<lparr>children =
        [Container (CellCode 1 (Some 1) None [''cell''])
          [Container CellCodeSource [Rendered ''f()'']]],
        warnings = []\<rparr>"
  by (simp add: demo_eval_defs)

section \<open>Tags, empty outputs and the order of the nodes\<close>

text \<open>
  C5. Whatever the configuration holds, a code cell whose tags contain \<^verbatim>\<open>remove_input\<close>
  or \<^verbatim>\<open>remove-input\<close> gets no source container in its cell container, and a code cell
  whose tags contain \<^verbatim>\<open>remove_output\<close> or \<^verbatim>\<open>remove-output\<close> gets no output container,
  whatever outputs the cell has.
\<close>

theorem tag_override_wins:
  assumes "render_nb_cell_code self tok st = Inr st'"
  shows "\<exists>body. children st' = children st @ [Container (cell_container_kind tok) body]
         \<and> (''remove_input'' \<in> set (get_tags tok) \<or> ''remove-input'' \<in> set (get_tags tok)
              \<longrightarrow> CellCodeSource \<notin> set (child_kinds body))
         \<and> (''remove_output'' \<in> set (get_tags tok) \<or> ''remove-output'' \<in> set (get_tags tok)
              \<longrightarrow> CellCodeOutput \<notin> set (child_kinds body))"
proof -
  from cell_code_shape [OF assms] obtain src outp where
    c: "children st' = children st @ [Container (cell_container_kind tok) (src @ outp)]"
    and src: "src = [] \<or> (\<exists>b. src = [Container CellCodeSource [Rendered b]])"
    and tagged: "''remove_input'' \<in> set (get_tags tok) \<or> ''remove-input'' \<in> set (get_tags tok)
              \<longrightarrow> src = []"
    and outp: "outp = [] \<or>
              (\<exists>ln c merge mp. token_line self tok = Inr ln
                 \<and> notebook_cell self (index tok) = Inr c
                 \<and> get_nb_config self ''merge_streams'' (Some (index tok)) = Inr merge
                 \<and> get_nb_config self ''mime_priority'' (Some (index tok)) = Inr mp
                 \<and> get_outputs c \<noteq> []
                 \<and> ''remove_output'' \<notin> set (get_tags tok)
                 \<and> ''remove-output'' \<notin> set (get_tags tok)
                 \<and> outp = [Container CellCodeOutput
                              (concat (map (emitted_nodes self (index tok) ln mp)
                                         (walked_outputs self merge c)))])"
    by blast
  have k_src: "set (child_kinds src) \<subseteq> {CellCodeSource}" using src by auto
  have k_out: "set (child_kinds outp) \<subseteq> {CellCodeOutput}" using outp by auto
  have app: "child_kinds (xs @ ys) = child_kinds xs @ child_kinds ys" for xs ys :: "'a node list"
    by (induction xs rule: child_kinds.induct) simp_all
  have a: "CellCodeSource \<notin> set (child_kinds (src @ outp))"
    if "''remove_input'' \<in> set (get_tags tok) \<or> ''remove-input'' \<in> set (get_tags tok)"
    using that tagged k_out by (auto simp: app)
  have b: "CellCodeOutput \<notin> set (child_kinds (src @ outp))"
    if "''remove_output'' \<in> set (get_tags tok) \<or> ''remove-output'' \<in> set (get_tags tok)"
    using that outp k_src by (auto simp: app)
  from c a b show ?thesis by blast
qed

text \<open>
  The configuration shows source and outputs (\<^verbatim>\<open>remove_code_source\<close> and
  \<^verbatim>\<open>remove_code_outputs\<close> are false) and the cell has four outputs: the tag
  \<^verbatim>\<open>remove-input\<close> leaves the output container alone in the cell, the tag
  \<^verbatim>\<open>remove_output\<close> leaves the source container alone.
\<close>

theorem tag_override_wins_witness:
  "nb_config demo_renderer ''remove_code_source'' = Some (VBool False)
   \<and> nb_config demo_renderer ''remove_code_outputs'' = Some (VBool False)
   \<and> ''remove-input'' \<in> set (get_tags demo_token_no_input)
   \<and> ''remove_output'' \<in> set (get_tags demo_token_no_output)
   \<and> render_nb_cell_code demo_renderer demo_token_no_input empty_state =
       Inr \<lparr>children =
          [Container (CellCode 0 (Some 1) (Some [''remove-input''])
                        [''cell'', ''tag_remove-input''])
            [Container CellCodeOutput
              [Rendered ''stdout:ab'',
               Container (MimeContainer ''image/png'')
                [Rendered ''image/png'', Rendered ''iVBOR''],
               Rendered ''stderr:x'']]],
          warnings = []\<rparr>
   \<and> render_nb_cell_code demo_renderer demo_token_no_output empty_state =
       Inr \<lparr>children =
          [Container (CellCode 0 (Some 1) (Some [''remove_output''])
                        [''cell'', ''tag_remove_output''])
            [Container CellCodeSource [Rendered ''f()'']]],
          warnings = []\<rparr>"
proof -
  have cfg: "nb_config demo_renderer ''remove_code_source'' = Some (VBool False)"
    "nb_config demo_renderer ''remove_code_outputs'' = Some (VBool False)"
    by (simp_all add: demo_renderer_def demo_config_def)
  have tg: "''remove-input'' \<in> set (get_tags demo_token_no_input)"
    "''remove_output'' \<in> set (get_tags demo_token_no_output)"
    by (simp_all add: get_tags_def demo_token_no_input_def demo_token_no_output_def demo_token_def)
  show ?thesis
    using tag_override_wins [OF demo_cell_no_input_rendered]
          tag_override_wins [OF demo_cell_no_output_rendered]
    by (simp only: cfg tg demo_cell_no_input_rendered demo_cell_no_output_rendered simp_thms)
qed

text \<open>
  C6. For a code cell whose list of outputs is empty (or absent), the output part of
  \<^verbatim>\<open>render_nb_cell_code\<close> changes nothing, whatever the configuration and the tags are:
  the cell container has no output container among its children.
\<close>

theorem empty_outputs_no_container:
  assumes "notebook_cell self (index tok) = Inr c" and "get_outputs c = []"
  shows "render_cell_output_part self tok s = Inr s
       \<and> (\<forall>st'. render_nb_cell_code self tok st = Inr st' \<longrightarrow>
            (\<exists>body. children st' = children st @ [Container (cell_container_kind tok) body]
               \<and> CellCodeOutput \<notin> set (child_kinds body)))"
proof -
  have part: "render_cell_output_part self tok s = Inr s" for s :: "'a rstate"
    using assms by (simp add: render_cell_output_part_def)
  have "\<exists>body. children st' = children st @ [Container (cell_container_kind tok) body]
               \<and> CellCodeOutput \<notin> set (child_kinds body)"
    if r: "render_nb_cell_code self tok st = Inr st'" for st'
  proof -
    from cell_code_result [OF r] obtain s1 s2 where
      s1: "render_cell_source_part self tok (st\<lparr>children := []\<rparr>) = Inr s1"
      and s2: "render_cell_output_part self tok s1 = Inr s2"
      and st': "st' = s2\<lparr>children := children st @ [Container (cell_container_kind tok) (children s2)]\<rparr>"
      by blast
    from s2 part [of s1] have "s2 = s1" by simp
    moreover have "CellCodeOutput \<notin> set (child_kinds (children s1))"
      using source_part_result [OF s1] by auto
    ultimately show ?thesis using st' by auto
  qed
  with part show ?thesis by blast
qed

text \<open>
  The second cell of the notebook has \<^verbatim>\<open>outputs = []\<close>; the configuration shows outputs
  and the cell has no tags.
\<close>

theorem empty_outputs_no_container_witness:
  "notebook_cell demo_renderer (index demo_token_empty)
     = Inr \<lparr>cell_type = ''code'', outputs = Some []\<rparr>
   \<and> get_outputs \<lparr>cell_type = ''code'', outputs = Some []\<rparr> = []
   \<and> nb_config demo_renderer ''remove_code_outputs'' = Some (VBool False)
   \<and> get_tags demo_token_empty = []
   \<and> render_cell_output_part demo_renderer demo_token_empty empty_state = Inr empty_state
   \<and> render_nb_cell_code demo_renderer demo_token_empty empty_state =
       Inr \<lparr>children =
          [Container (CellCode 1 (Some 1) None [''cell''])
            [Container CellCodeSource [Rendered ''f()'']]],
          warnings = []\<rparr>"
proof -
  have h1: "notebook_cell demo_renderer (index demo_token_empty)
     = Inr \<lparr>cell_type = ''code'', outputs = Some []\<rparr>"
    by (simp add: notebook_cell_def demo_renderer_def demo_notebook_def demo_token_empty_def
          demo_token_def)
  have h2: "get_outputs \<lparr>cell_type = ''code'', outputs = Some []\<rparr> = []"
    by (simp add: get_outputs_def)
  have cfg: "nb_config demo_renderer ''remove_code_outputs'' = Some (VBool False)"
    by (simp add: demo_renderer_def demo_config_def)
  have tg: "get_tags demo_token_empty = []"
    by (simp add: get_tags_def demo_token_empty_def demo_token_def)
  from empty_outputs_no_container [OF h1 h2, where st = empty_state and s = empty_state]
  have part: "render_cell_output_part demo_renderer demo_token_empty empty_state = Inr empty_state"
    by blast
  show ?thesis
    by (simp only: h1 h2 cfg tg part demo_cell_empty_rendered simp_thms)
qed

text \<open>
  C7. The children of the cell container are the source part followed by the output
  part: at most one source container, then at most one output container. The children of
  the output container are, in the order of the walked outputs (the coalesced outputs when
  \<^verbatim>\<open>merge_streams\<close> is true), the nodes that each output adds on its own.
\<close>

theorem cell_nodes_in_order:
  assumes "render_nb_cell_code self tok st = Inr st'"
  shows "\<exists>src outp.
           children st' = children st @ [Container (cell_container_kind tok) (src @ outp)]
         \<and> (src = [] \<or> (\<exists>b. src = [Container CellCodeSource [Rendered b]]))
         \<and> (outp = [] \<or>
              (\<exists>ln c merge mp. token_line self tok = Inr ln
                 \<and> notebook_cell self (index tok) = Inr c
                 \<and> get_nb_config self ''merge_streams'' (Some (index tok)) = Inr merge
                 \<and> get_nb_config self ''mime_priority'' (Some (index tok)) = Inr mp
                 \<and> outp = [Container CellCodeOutput
                              (concat (map (emitted_nodes self (index tok) ln mp)
                                         (walked_outputs self merge c)))]))"
  using cell_code_shape [OF assms] by blast

text \<open>
  The first cell of the notebook, with \<^verbatim>\<open>merge_streams\<close> true: two stdout streams that
  are walked as one, a display with two mime types, stderr.
\<close>

theorem cell_nodes_in_order_witness:
  "render_nb_cell_code demo_renderer demo_token empty_state =
     Inr \<lparr>children =
        [Container (CellCode 0 (Some 1) None [''cell''])
          [Container CellCodeSource [Rendered ''f()''],
           Container CellCodeOutput
            [Rendered ''stdout:ab'',
             Container (MimeContainer ''image/png'')
              [Rendered ''image/png'', Rendered ''iVBOR''],
             Rendered ''stderr:x'']]],
        warnings = []\<rparr>
   \<and> walked_outputs demo_renderer (VBool True)
        \<lparr>cell_type = ''code'',
           outputs = Some [out_stdout, out_stdout_b, out_display, out_stderr]\<rparr>
       = [out_stdout\<lparr>text' := Some ''ab''\<rparr>, out_display, out_stderr]
   \<and> concat (map (emitted_nodes demo_renderer 0 3
                    (VList [''text/html'', ''image/png'', ''text/plain'']))
               [out_stdout\<lparr>text' := Some ''ab''\<rparr>, out_display, out_stderr])
       = [Rendered ''stdout:ab'',
          Container (MimeContainer ''image/png'') [Rendered ''image/png'', Rendered ''iVBOR''],
          Rendered ''stderr:x'']"
proof -
  have w: "walked_outputs demo_renderer (VBool True)
        \<lparr>cell_type = ''code'',
           outputs = Some [out_stdout, out_stdout_b, out_display, out_stderr]\<rparr>
       = [out_stdout\<lparr>text' := Some ''ab''\<rparr>, out_display, out_stderr]"
    by (simp add: walked_outputs_def get_outputs_def demo_renderer_def out_stdout_def
          out_stdout_b_def out_display_def out_stderr_def)
  have e: "concat (map (emitted_nodes demo_renderer 0 3
                    (VList [''text/html'', ''image/png'', ''text/plain'']))
               [out_stdout\<lparr>text' := Some ''ab''\<rparr>, out_display, out_stderr])
       = [Rendered ''stdout:ab'',
          Container (MimeContainer ''image/png'') [Rendered ''image/png'', Rendered ''iVBOR''],
          Rendered ''stderr:x'']"
    by (simp add: emitted_nodes_def render_output_def extend_current_def empty_state_def
          demo_renderer_def stream_text_def out_stdout_def out_stderr_def out_display_def)
  show ?thesis
    using cell_nodes_in_order [OF demo_cell_rendered]
    by (simp only: w e demo_cell_rendered simp_thms)
qed

section \<open>The configuration and the written notebook of a parse run\<close>



lemma demo_parse:
  "parse demo_env ''{}'' demo_document demo_pstate =
     Inr \<lparr>directives =
            [(''code-cell'', ''UnexpectedCellDirective''),
             (''raw-cell'', ''UnexpectedCellDirective'')],
          logged =
            [\<lparr>level = ''error'', msg = ''myst configuration invalid: bad extension''\<rparr>,
             \<lparr>level = ''error'', msg = ''myst-nb configuration invalid: bad timeout''\<rparr>],
          nb_exec_data = Some ''executed'', doc_children = [''f()''],
          written = [([''rendered.ipynb''], ''code'', True)]\<rparr>"
  by (simp add: parse_def parse_config_def parse_with_config_def parse_notebook_def
        parse_render_def write_rendered_def try_config_def logger_error_def
        register_directives_def demo_env_def demo_document_def demo_pstate_def
        demo_notebook_def demo_token_def Let_def)



text \<open>
  C9. A run of \<^verbatim>\<open>parse\<close> returns exactly when the configuration, the reading and updating
  of the notebook, the rendering, \<^verbatim>\<open>nbformat.writes\<close> and the encoding all return; the
  notebook \<open>nb\<close> is then the one \<^verbatim>\<open>update_notebook\<close> returned, and the last thing the run
  does is the call \<^verbatim>\<open>write_file(["rendered.ipynb"], content, overwrite=True)\<close> with
  \<open>content\<close> the UTF-8 encoding of \<^verbatim>\<open>nbformat.writes(nb)\<close>.
\<close>

theorem rendered_notebook_written:
  "parse env inputstring doc st = Inr st' \<longleftrightarrow>
     (\<exists>md_conf nb_conf s1 nb0 exec_data lg nb reader s2 nb_renderer s3 serialized bytes.
        parse_config env doc (register_directives st) = Inr (md_conf, nb_conf, s1)
      \<and> parse_notebook env inputstring (source doc) md_conf nb_conf s1 = Inr (nb, reader, s2)
      \<and> read reader inputstring = Inr nb0
      \<and> update_notebook env nb0 (source doc) nb_conf = Inr (nb, exec_data, lg)
      \<and> parse_render env (source doc) nb reader nb_conf s2 = Inr (nb_renderer, s3)
      \<and> nbformat_writes env nb = Inr serialized
      \<and> encode_utf8 env serialized = Inr bytes
      \<and> st' = s3\<lparr>written := written s3 @ [([''rendered.ipynb''], bytes, True)]\<rparr>)"
proof
  assume "parse env inputstring doc st = Inr st'"
  then obtain md_conf nb_conf s1 nb reader s2 nb_renderer s3 serialized bytes where
    a: "parse_config env doc (register_directives st) = Inr (md_conf, nb_conf, s1)"
       "parse_notebook env inputstring (source doc) md_conf nb_conf s1 = Inr (nb, reader, s2)"
       "parse_render env (source doc) nb reader nb_conf s2 = Inr (nb_renderer, s3)"
       "nbformat_writes env nb = Inr serialized"
       "encode_utf8 env serialized = Inr bytes"
       "st' = s3\<lparr>written := written s3 @ [([''rendered.ipynb''], bytes, True)]\<rparr>"
    by (auto simp: parse_def parse_with_config_def write_rendered_def Let_def split: sum.splits)
  from a(2) obtain nb0 exec_data lg where
    "read reader inputstring = Inr nb0"
    "update_notebook env nb0 (source doc) nb_conf = Inr (nb, exec_data, lg)"
    by (auto simp: parse_notebook_def Let_def split: sum.splits if_splits)
  with a show "\<exists>md_conf nb_conf s1 nb0 exec_data lg nb reader s2 nb_renderer s3 serialized bytes.
        parse_config env doc (register_directives st) = Inr (md_conf, nb_conf, s1)
      \<and> parse_notebook env inputstring (source doc) md_conf nb_conf s1 = Inr (nb, reader, s2)
      \<and> read reader inputstring = Inr nb0
      \<and> update_notebook env nb0 (source doc) nb_conf = Inr (nb, exec_data, lg)
      \<and> parse_render env (source doc) nb reader nb_conf s2 = Inr (nb_renderer, s3)
      \<and> nbformat_writes env nb = Inr serialized
      \<and> encode_utf8 env serialized = Inr bytes
      \<and> st' = s3\<lparr>written := written s3 @ [([''rendered.ipynb''], bytes, True)]\<rparr>"
    by blast
next
  assume "\<exists>md_conf nb_conf s1 nb0 exec_data lg nb reader s2 nb_renderer s3 serialized bytes.
        parse_config env doc (register_directives st) = Inr (md_conf, nb_conf, s1)
      \<and> parse_notebook env inputstring (source doc) md_conf nb_conf s1 = Inr (nb, reader, s2)
      \<and> read reader inputstring = Inr nb0
      \<and> update_notebook env nb0 (source doc) nb_conf = Inr (nb, exec_data, lg)
      \<and> parse_render env (source doc) nb reader nb_conf s2 = Inr (nb_renderer, s3)
      \<and> nbformat_writes env nb = Inr serialized
      \<and> encode_utf8 env serialized = Inr bytes
      \<and> st' = s3\<lparr>written := written s3 @ [([''rendered.ipynb''], bytes, True)]\<rparr>"
  then show "parse env inputstring doc st = Inr st'"
    by (auto simp: parse_def parse_with_config_def write_rendered_def Let_def)
qed

text \<open>
  The run on the concrete environment: \<^verbatim>\<open>update_notebook\<close> keeps the first cell only, and
  the content written is the serialization of that updated notebook.
\<close>

theorem rendered_notebook_written_witness:
  "parse demo_env ''{}'' demo_document demo_pstate =
     Inr \<lparr>directives =
            [(''code-cell'', ''UnexpectedCellDirective''),
             (''raw-cell'', ''UnexpectedCellDirective'')],
          logged =
            [\<lparr>level = ''error'', msg = ''myst configuration invalid: bad extension''\<rparr>,
             \<lparr>level = ''error'', msg = ''myst-nb configuration invalid: bad timeout''\<rparr>],
          nb_exec_data = Some ''executed'', doc_children = [''f()''],
          written = [([''rendered.ipynb''], ''code'', True)]\<rparr>
   \<and> (\<exists>nb0 nb exec_data lg serialized.
         update_notebook demo_env nb0 (source demo_document) (NbParserConfig demo_env)
           = Inr (nb, exec_data, lg)
       \<and> nbformat_writes demo_env nb = Inr serialized
       \<and> encode_utf8 demo_env serialized = Inr ''code'')"
proof -
  from rendered_notebook_written [THEN iffD1, OF demo_parse]
  obtain md_conf nb_conf s1 nb0 exec_data lg nb reader s2 nb_renderer s3 serialized bytes where
    a: "parse_config demo_env demo_document (register_directives demo_pstate)
          = Inr (md_conf, nb_conf, s1)"
       "update_notebook demo_env nb0 (source demo_document) nb_conf = Inr (nb, exec_data, lg)"
       "nbformat_writes demo_env nb = Inr serialized"
       "encode_utf8 demo_env serialized = Inr bytes"
    and r: "\<lparr>directives =
            [(''code-cell'', ''UnexpectedCellDirective''),
             (''raw-cell'', ''UnexpectedCellDirective'')],
          logged =
            [\<lparr>level = ''error'', msg = ''myst configuration invalid: bad extension''\<rparr>,
             \<lparr>level = ''error'', msg = ''myst-nb configuration invalid: bad timeout''\<rparr>],
          nb_exec_data = Some ''executed'', doc_children = [''f()''],
          written = [([''rendered.ipynb''], ''code'', True)]\<rparr>
        = s3\<lparr>written := written s3 @ [([''rendered.ipynb''], bytes, True)]\<rparr>"
    by blast
  from r have "written (s3\<lparr>written := written s3 @ [([''rendered.ipynb''], bytes, True)]\<rparr>)
      = [([''rendered.ipynb''], ''code'', True)]"
    by (metis pstate.select_convs(5))
  then have b: "bytes = ''code''" by simp
  from a(1) have c: "nb_conf = NbParserConfig demo_env"
    by (simp add: parse_config_def try_config_def demo_env_def demo_document_def)
  from a(2,3,4) b c demo_parse show ?thesis by blast
qed

end
